theory Spec2Isabelle
  imports Main
begin

section \<open>Python values\<close>

text \<open>
  The parser reads JSON documents and keeps what it reads in dynamically typed fields:
  \<^verbatim>\<open>data.get('rarity', 1)\<close> returns whatever the document holds under that key. The
  values of the model are therefore the values \<^verbatim>\<open>json.load\<close> produces: \<^verbatim>\<open>None\<close>,
  booleans, unbounded integers, strings, lists and dictionaries with string keys.
  A dictionary is an association list in insertion order. A character is a code point
  below 256. JSON numbers with a fraction or an exponent (Python floats) are outside the
  model, and so is the interpreter's configurable limit on the number of digits of an
  integer literal.
\<close>

datatype pyval =
    PNone
  | PBool bool
  | PInt int
  | PStr string
  | PList "pyval list"
  | PDict "(string \<times> pyval) list"

datatype error =
    TypeError
  | ValueError
  | KeyError
  | IndexError
  | AttributeError
  | OverflowError
  | OSError
  | JSONDecodeError

text \<open>Truth value testing, as \<^verbatim>\<open>if x:\<close>, \<^verbatim>\<open>not x\<close> and \<^verbatim>\<open>x or y\<close> use it.\<close>

fun truthy :: "pyval \<Rightarrow> bool" where
  "truthy PNone = False"
| "truthy (PBool b) = b"
| "truthy (PInt i) = (i \<noteq> 0)"
| "truthy (PStr s) = (s \<noteq> [])"
| "truthy (PList xs) = (xs \<noteq> [])"
| "truthy (PDict kvs) = (kvs \<noteq> [])"

subsection \<open>\<^verbatim>\<open>str\<close> and \<^verbatim>\<open>repr\<close>\<close>

definition digit_char :: "nat \<Rightarrow> char" where
  "digit_char d = ''0123456789'' ! d"

fun dec :: "nat \<Rightarrow> string" where
  "dec n = (if n < 10 then [digit_char n] else dec (n div 10) @ [digit_char (n mod 10)])"

declare dec.simps [simp del]

definition str_int :: "int \<Rightarrow> string" where
  "str_int i = (if i < 0 then CHR ''-'' # dec (nat (- i)) else dec (nat i))"

definition hex_char :: "nat \<Rightarrow> char" where
  "hex_char d = ''0123456789abcdef'' ! d"

text \<open>
  \<^verbatim>\<open>str.isprintable\<close> on one character below 256: the control characters, the
  no-break space and the soft hyphen are not printable.
\<close>

definition printable :: "char \<Rightarrow> bool" where
  "printable c = (let n = (of_char c :: nat) in
     \<not> (n < 32 \<or> (127 \<le> n \<and> n \<le> 160) \<or> n = 173))"

definition repr_char :: "char \<Rightarrow> char \<Rightarrow> string" where
  "repr_char q c =
     (if c = q \<or> c = CHR 0x5C then [CHR 0x5C, c]
      else if c = CHR 0x09 then [CHR 0x5C, CHR ''t'']
      else if c = CHR 0x0A then [CHR 0x5C, CHR ''n'']
      else if c = CHR 0x0D then [CHR 0x5C, CHR ''r'']
      else if printable c then [c]
      else [CHR 0x5C, CHR ''x'', hex_char ((of_char c :: nat) div 16),
            hex_char ((of_char c :: nat) mod 16)])"

definition repr_str :: "string \<Rightarrow> string" where
  "repr_str s =
     (let q = (if CHR 0x27 \<in> set s \<and> CHR 0x22 \<notin> set s then CHR 0x22 else CHR 0x27)
      in q # concat (map (repr_char q) s) @ [q])"

fun join :: "string \<Rightarrow> string list \<Rightarrow> string" where
  "join sep [] = []"
| "join sep [x] = x"
| "join sep (x # y # ys) = x @ sep @ join sep (y # ys)"

fun repr :: "pyval \<Rightarrow> string" where
  "repr PNone = ''None''"
| "repr (PBool b) = (if b then ''True'' else ''False'')"
| "repr (PInt i) = str_int i"
| "repr (PStr s) = repr_str s"
| "repr (PList xs) = ''['' @ join '', '' (map repr xs) @ '']''"
| "repr (PDict kvs) =
     ''{'' @ join '', '' (map (\<lambda>kv. repr_str (fst kv) @ '': '' @ repr (snd kv)) kvs) @ ''}''"

definition str :: "pyval \<Rightarrow> string" where
  "str v = (case v of PStr s \<Rightarrow> s | _ \<Rightarrow> repr v)"

subsection \<open>\<^verbatim>\<open>int\<close> of a string, \<^verbatim>\<open>str.isdigit\<close>\<close>

text \<open>
  \<^verbatim>\<open>int(s)\<close> in base 10: white space around the number is skipped, one sign is
  allowed, the digits are \<^verbatim>\<open>0\<close> to \<^verbatim>\<open>9\<close> with single underscores between them.
  Anything else raises \<^verbatim>\<open>ValueError\<close>, here \<open>None\<close>.
\<close>

definition int_space :: "char \<Rightarrow> bool" where
  "int_space c = (let n = (of_char c :: nat) in
     (9 \<le> n \<and> n \<le> 13) \<or> n = 32 \<or> n = 133 \<or> n = 160)"

definition is_decimal :: "char \<Rightarrow> bool" where
  "is_decimal c = (let n = (of_char c :: nat) in 48 \<le> n \<and> n \<le> 57)"

definition digit_val :: "char \<Rightarrow> nat" where
  "digit_val c = of_char c - 48"

fun digits_ok :: "string \<Rightarrow> bool" where
  "digits_ok [] = False"
| "digits_ok [c] = is_decimal c"
| "digits_ok (c # d # cs) =
     (if is_decimal c then digits_ok (d # cs)
      else c = CHR ''_'' \<and> is_decimal d \<and> digits_ok (d # cs))"

definition digits_val :: "string \<Rightarrow> nat" where
  "digits_val cs = foldl (\<lambda>acc c. 10 * acc + digit_val c) 0 (filter is_decimal cs)"

definition unsigned_int :: "string \<Rightarrow> nat option" where
  "unsigned_int cs =
     (case cs of [] \<Rightarrow> None
      | c # _ \<Rightarrow> if is_decimal c \<and> digits_ok cs then Some (digits_val cs) else None)"

definition py_int :: "string \<Rightarrow> int option" where
  "py_int s =
     (let t = rev (dropWhile int_space (rev (dropWhile int_space s)))
      in case t of
           [] \<Rightarrow> None
         | c # cs \<Rightarrow>
             if c = CHR ''-'' then map_option (\<lambda>n. - int n) (unsigned_int cs)
             else if c = CHR ''+'' then map_option int (unsigned_int cs)
             else map_option int (unsigned_int t))"

text \<open>
  \<^verbatim>\<open>str.isdigit\<close>: a non-empty string of digit characters. Below 256 these are
  \<^verbatim>\<open>0\<close> to \<^verbatim>\<open>9\<close> and the superscripts two, three and one, which \<^verbatim>\<open>int\<close> rejects.
\<close>

definition isdigit_char :: "char \<Rightarrow> bool" where
  "isdigit_char c = (let n = (of_char c :: nat) in
     (48 \<le> n \<and> n \<le> 57) \<or> n = 178 \<or> n = 179 \<or> n = 185)"

definition isdigit :: "string \<Rightarrow> bool" where
  "isdigit s = (s \<noteq> [] \<and> list_all isdigit_char s)"

subsection \<open>Equality and order\<close>

text \<open>
  \<^verbatim>\<open>==\<close>: booleans are the integers 0 and 1, lists are equal item by item, dictionaries
  are equal when they have the same keys with equal values, in any order.
\<close>

definition as_int :: "pyval \<Rightarrow> int option" where
  "as_int v = (case v of PBool b \<Rightarrow> Some (if b then 1 else 0) | PInt i \<Rightarrow> Some i | _ \<Rightarrow> None)"

fun py_eq :: "pyval \<Rightarrow> pyval \<Rightarrow> bool"
  and py_eq_list :: "pyval list \<Rightarrow> pyval list \<Rightarrow> bool"
  and py_eq_items :: "(string \<times> pyval) list \<Rightarrow> (string \<times> pyval) list \<Rightarrow> bool" where
  "py_eq PNone b = (b = PNone)"
| "py_eq (PBool x) b = (as_int b = Some (if x then 1 else 0))"
| "py_eq (PInt i) b = (as_int b = Some i)"
| "py_eq (PStr s) b = (b = PStr s)"
| "py_eq (PList xs) b = (case b of PList ys \<Rightarrow> py_eq_list xs ys | _ \<Rightarrow> False)"
| "py_eq (PDict kvs) b =
     (case b of PDict kvs' \<Rightarrow> length kvs = length kvs' \<and> py_eq_items kvs kvs' | _ \<Rightarrow> False)"
| "py_eq_list [] ys = (ys = [])"
| "py_eq_list (x # xs) ys = (case ys of [] \<Rightarrow> False | y # ys' \<Rightarrow> py_eq x y \<and> py_eq_list xs ys')"
| "py_eq_items [] kvs' = True"
| "py_eq_items (kv # kvs) kvs' =
     ((case map_of kvs' (fst kv) of None \<Rightarrow> False | Some v' \<Rightarrow> py_eq (snd kv) v')
      \<and> py_eq_items kvs kvs')"

text \<open>Strings are ordered by code point, a proper prefix first.\<close>

fun str_lt :: "string \<Rightarrow> string \<Rightarrow> bool" where
  "str_lt [] [] = False"
| "str_lt [] (d # ds) = True"
| "str_lt (c # cs) [] = False"
| "str_lt (c # cs) (d # ds) = (if c = d then str_lt cs ds else (of_char c :: nat) < of_char d)"

text \<open>
  \<^verbatim>\<open><\<close>: \<open>None\<close> is \<^verbatim>\<open>TypeError\<close>. Numbers compare with numbers and strings with
  strings. Lists and tuples compare at the first position where the items are not equal;
  \<^verbatim>\<open>None\<close>, dictionaries and values of different kinds have no order.
\<close>

fun py_lt :: "pyval \<Rightarrow> pyval \<Rightarrow> bool option"
  and py_lt_list :: "pyval list \<Rightarrow> pyval list \<Rightarrow> bool option" where
  "py_lt PNone b = None"
| "py_lt (PBool x) b = map_option (\<lambda>j. (if x then 1 else 0) < j) (as_int b)"
| "py_lt (PInt i) b = map_option (\<lambda>j. i < j) (as_int b)"
| "py_lt (PStr s) b = (case b of PStr t \<Rightarrow> Some (str_lt s t) | _ \<Rightarrow> None)"
| "py_lt (PList xs) b = (case b of PList ys \<Rightarrow> py_lt_list xs ys | _ \<Rightarrow> None)"
| "py_lt (PDict kvs) b = None"
| "py_lt_list [] ys = Some (ys \<noteq> [])"
| "py_lt_list (x # xs) ys =
     (case ys of [] \<Rightarrow> Some False
      | y # ys' \<Rightarrow> if py_eq x y then py_lt_list xs ys' else py_lt x y)"

subsection \<open>\<^verbatim>\<open>sorted\<close>\<close>

text \<open>
  \<^verbatim>\<open>sorted(xs, key=f)\<close> is a stable sort that asks only \<^verbatim>\<open><\<close> of the keys. When
  two keys of the list have no order the comparison raises \<^verbatim>\<open>TypeError\<close> and so does
  \<^verbatim>\<open>sorted\<close>: a pair without an order is never separated by a third key, so every
  correct sort compares such a pair. With \<^verbatim>\<open>reverse=True\<close> the list is reversed,
  sorted and reversed again, which keeps equal keys in their original order.
\<close>

fun comparable :: "('k \<Rightarrow> 'k \<Rightarrow> bool option) \<Rightarrow> 'k list \<Rightarrow> bool" where
  "comparable lt [] = True"
| "comparable lt (k # ks) =
     (list_all (\<lambda>k'. lt k k' \<noteq> None \<and> lt k' k \<noteq> None) ks \<and> comparable lt ks)"

fun insort_by :: "('k \<Rightarrow> 'k \<Rightarrow> bool option) \<Rightarrow> ('a \<Rightarrow> 'k) \<Rightarrow> 'a \<Rightarrow> 'a list \<Rightarrow> 'a list" where
  "insort_by lt key x [] = [x]"
| "insort_by lt key x (y # ys) =
     (if lt (key y) (key x) = Some True then y # insort_by lt key x ys else x # y # ys)"

definition sorted_by :: "('k \<Rightarrow> 'k \<Rightarrow> bool option) \<Rightarrow> ('a \<Rightarrow> 'k) \<Rightarrow> 'a list \<Rightarrow> error + 'a list" where
  "sorted_by lt key xs =
     (if comparable lt (map key xs) then Inr (foldr (insort_by lt key) xs [])
      else Inl TypeError)"

definition sorted_by_reverse ::
  "('k \<Rightarrow> 'k \<Rightarrow> bool option) \<Rightarrow> ('a \<Rightarrow> 'k) \<Rightarrow> 'a list \<Rightarrow> error + 'a list" where
  "sorted_by_reverse lt key xs = map_sum id rev (sorted_by lt key (rev xs))"

definition int_lt :: "int \<Rightarrow> int \<Rightarrow> bool option" where
  "int_lt a b = Some (a < b)"

subsection \<open>Dictionaries\<close>

text \<open>
  \<^verbatim>\<open>d.get(k, dflt)\<close> on a dictionary; \<^verbatim>\<open>d[k] = v\<close> replaces the value of a key
  that is present, in place, and appends a new key at the end.
\<close>

definition dict_get :: "('k \<times> 'v) list \<Rightarrow> 'k \<Rightarrow> 'v \<Rightarrow> 'v" where
  "dict_get d k dflt = (case map_of d k of Some v \<Rightarrow> v | None \<Rightarrow> dflt)"

fun setitem :: "('k \<times> 'v) list \<Rightarrow> 'k \<Rightarrow> 'v \<Rightarrow> ('k \<times> 'v) list" where
  "setitem [] k v = [(k, v)]"
| "setitem (p # ps) k v = (if fst p = k then (k, v) # ps else p # setitem ps k v)"

definition dict_values :: "('k \<times> 'v) list \<Rightarrow> 'v list" where
  "dict_values d = map snd d"

text \<open>
  \<^verbatim>\<open>x.get(k, dflt)\<close> and \<^verbatim>\<open>x.items()\<close> on a value that came out of a JSON document:
  only a dictionary has these methods.
\<close>

definition get :: "pyval \<Rightarrow> string \<Rightarrow> pyval \<Rightarrow> error + pyval" where
  "get x k dflt = (case x of PDict d \<Rightarrow> Inr (dict_get d k dflt) | _ \<Rightarrow> Inl AttributeError)"

definition items :: "pyval \<Rightarrow> error + (string \<times> pyval) list" where
  "items x = (case x of PDict d \<Rightarrow> Inr d | _ \<Rightarrow> Inl AttributeError)"

text \<open>
  A value used as the key of an integer-keyed dictionary is hashed first: lists and
  dictionaries raise \<^verbatim>\<open>TypeError\<close>; a boolean is the integer 0 or 1; \<^verbatim>\<open>None\<close> and
  strings are equal to no integer.
\<close>

definition hash_key :: "pyval \<Rightarrow> error + int option" where
  "hash_key v = (case v of PList _ \<Rightarrow> Inl TypeError | PDict _ \<Rightarrow> Inl TypeError | _ \<Rightarrow> Inr (as_int v))"

definition table_get :: "(int \<times> 'v) list \<Rightarrow> pyval \<Rightarrow> 'v \<Rightarrow> error + 'v" where
  "table_get t v dflt =
     (case hash_key v of Inl e \<Rightarrow> Inl e
      | Inr None \<Rightarrow> Inr dflt
      | Inr (Some i) \<Rightarrow> Inr (dict_get t i dflt))"

text \<open>\<^verbatim>\<open>k in x\<close> and \<^verbatim>\<open>x[k]\<close> for a string \<^verbatim>\<open>k\<close>.\<close>

fun is_prefix :: "string \<Rightarrow> string \<Rightarrow> bool" where
  "is_prefix [] s = True"
| "is_prefix (c # cs) [] = False"
| "is_prefix (c # cs) (d # ds) = (c = d \<and> is_prefix cs ds)"

fun is_substring :: "string \<Rightarrow> string \<Rightarrow> bool" where
  "is_substring k [] = (k = [])"
| "is_substring k (c # cs) = (is_prefix k (c # cs) \<or> is_substring k cs)"

definition contains :: "string \<Rightarrow> pyval \<Rightarrow> error + bool" where
  "contains k x =
     (case x of
        PDict d \<Rightarrow> Inr (map_of d k \<noteq> None)
      | PList xs \<Rightarrow> Inr (PStr k \<in> set xs)
      | PStr s \<Rightarrow> Inr (is_substring k s)
      | _ \<Rightarrow> Inl TypeError)"

definition getitem :: "pyval \<Rightarrow> string \<Rightarrow> error + pyval" where
  "getitem x k =
     (case x of
        PDict d \<Rightarrow> (case map_of d k of Some v \<Rightarrow> Inr v | None \<Rightarrow> Inl KeyError)
      | _ \<Rightarrow> Inl TypeError)"

subsection \<open>Exceptions in sequence\<close>

text \<open>
  The arguments of a constructor call are evaluated from left to right and the first
  exception ends the evaluation.
\<close>

definition and_then :: "error + 'a \<Rightarrow> ('a \<Rightarrow> error + 'b) \<Rightarrow> error + 'b" where
  "and_then m f = (case m of Inl e \<Rightarrow> Inl e | Inr x \<Rightarrow> f x)"

section \<open>The data model\<close>

text \<open>
  The three dataclasses of \<^verbatim>\<open>azur_lane_data_parser.py\<close>. The annotations of the
  fields are not enforced by Python: a field filled by \<^verbatim>\<open>data.get\<close> holds whatever the
  document holds, so these fields are values. \<^verbatim>\<open>id\<close> is always the result of
  \<^verbatim>\<open>int\<close> and \<^verbatim>\<open>type_name\<close> always comes out of a lookup table of strings.
\<close>

record Equipment =
  equip_id :: int
  equip_name :: pyval
  equip_type :: pyval
  equip_type_name :: string
  equip_rarity :: pyval
  equip_nationality :: pyval
  equip_tech :: pyval
  equip_damage :: pyval
  equip_reload :: pyval
  equip_armor_modifiers :: pyval
  equip_ammo_type :: pyval
  equip_weapon_ids :: pyval
  equip_parameters :: pyval
  equip_property_rate :: pyval
  equip_value_2 :: pyval
  equip_value_3 :: pyval
  equip_description :: pyval
  equip_speciality :: pyval
  equip_part_main :: pyval
  equip_part_sub :: pyval

record Ship =
  ship_id :: int
  ship_name :: pyval
  ship_english_name :: pyval
  ship_type :: pyval
  ship_type_name :: string
  ship_nationality :: pyval
  ship_rarity :: pyval
  ship_star :: pyval
  ship_armor_type :: pyval
  ship_hp :: pyval
  ship_firepower :: pyval
  ship_torpedo :: pyval
  ship_antiair :: pyval
  ship_aviation :: pyval
  ship_reload :: pyval
  ship_armor :: pyval
  ship_hit :: pyval
  ship_evasion :: pyval
  ship_speed :: pyval
  ship_luck :: pyval
  ship_antisub :: pyval
  ship_hp_growth :: pyval
  ship_firepower_growth :: pyval
  ship_torpedo_growth :: pyval
  ship_antiair_growth :: pyval
  ship_aviation_growth :: pyval
  ship_reload_growth :: pyval
  ship_armor_growth :: pyval
  ship_hit_growth :: pyval
  ship_evasion_growth :: pyval
  ship_antisub_growth :: pyval
  ship_equipment_proficiency :: pyval
  ship_base_list :: pyval
  ship_preload_count :: pyval

record Weapon =
  weapon_id :: int
  weapon_name :: pyval
  weapon_damage :: pyval
  weapon_reload_max :: pyval
  weapon_bullet_id :: pyval
  weapon_barrage_id :: pyval
  weapon_spawn_bound :: pyval
  weapon_fire_fx :: pyval
  weapon_type :: pyval
  weapon_range :: pyval
  weapon_angle :: pyval
  weapon_min_range :: pyval
  weapon_aim_type :: pyval

subsection \<open>Lookup tables\<close>

definition EQUIP_TYPES :: "(int \<times> string) list" where
  "EQUIP_TYPES =
     [(1, ''DD Gun''), (2, ''CL Gun''), (3, ''CA Gun''), (4, ''BB Gun''), (5, ''Torpedo''),
      (6, ''AA Gun''), (7, ''Fighter''), (8, ''Torpedo Bomber''), (9, ''Dive Bomber''),
      (10, ''Auxiliary''), (11, ''CB Gun''), (12, ''Seaplane''), (13, ''Submarine Torpedo''),
      (14, ''Depth Charge''), (15, ''Anti-Submarine Aircraft''), (17, ''Helicopter''),
      (18, ''Goods'')]"

definition SHIP_TYPES :: "(int \<times> string) list" where
  "SHIP_TYPES =
     [(1, ''Destroyer''), (2, ''Light Cruiser''), (3, ''Heavy Cruiser''), (4, ''Battlecruiser''),
      (5, ''Battleship''), (6, ''Light Carrier''), (7, ''Aircraft Carrier''), (8, ''Submarine''),
      (9, ''Aviation Cruiser''), (10, ''Aviation Battleship''), (11, ''Torpedo Cruiser''),
      (12, ''Repair Ship''), (13, ''Monitor''), (17, ''Submarine Carrier''),
      (18, ''Large Cruiser''), (19, ''Munition Ship''), (20, ''Missile Destroyer''),
      (21, ''Missile Cruiser''), (22, ''Frigate'')]"

definition NATIONS :: "(int \<times> string) list" where
  "NATIONS =
     [(0, ''Universal''), (1, ''Eagle Union''), (2, ''Royal Navy''), (3, ''Sakura Empire''),
      (4, ''Iron Blood''), (5, ''Dragon Empery''), (6, ''Sardegna Empire''),
      (7, ''Northern Parliament''), (8, ''Iris Libre''), (9, ''Vichya Dominion''),
      (10, ''Iris Orthodoxy''), (11, ''Tempesta''), (12, ''META''), (13, ''Unknown'')]"

definition RARITIES :: "(int \<times> string) list" where
  "RARITIES =
     [(1, ''Common''), (2, ''Rare''), (3, ''Elite''), (4, ''Super Rare''), (5, ''Ultra Rare''),
      (6, ''Decisive'')]"

section \<open>The parser and its world\<close>

text \<open>
  What \<^verbatim>\<open>load_json\<close> can find under a file name of the data directory: no file, a file
  that is not JSON, a file whose reading fails otherwise, or a document.
\<close>

datatype file_state = Missing | Invalid_json | Unreadable | Document pyval

text \<open>
  An output file holds what was handed to its writer: the rows given to the
  \<^verbatim>\<open>csv.DictWriter\<close>, header first, each row the texts of its cells in the order of
  \<^verbatim>\<open>fieldnames\<close>, or the value given to \<^verbatim>\<open>json.dump\<close>. The bytes of the file are
  the writer's rendering of it.
\<close>

datatype content = Csv "string list list" | Json pyval

text \<open>The diagnostics printed on the console; progress lines are not recorded.\<close>

datatype event =
    Warn_not_found string
  | Err_invalid_json string
  | Err_loading string
  | Err_parsing_equipment string error
  | Err_parsing_ship string error
  | Err_parsing_weapon string error
  | Note_weapon_fallback
  | Err_creating_output_directory error

text \<open>
  The state is the parser object (\<open>equipment\<close>, \<open>ships\<close>, \<open>weapons\<close>,
  \<open>weapon_names\<close>; the other attributes are never used) together with the world it
  runs in: the files of the data directory, whether the output directory can be created
  and which of its files can be opened for writing, the files of the output directory,
  and the console. The data directory and the output directory are different
  directories.
\<close>

record state =
  equipment :: "(int \<times> Equipment) list"
  ships :: "(int \<times> Ship) list"
  weapons :: "(int \<times> Weapon) list"
  weapon_names :: "(int \<times> pyval) list"
  data_files :: "string \<Rightarrow> file_state"
  can_make_dir :: bool
  can_open :: "string \<Rightarrow> bool"
  out_files :: "string \<Rightarrow> content option"
  console :: "event list"

definition say :: "event \<Rightarrow> state \<Rightarrow> state" where
  "say ev s = s\<lparr>console := console s @ [ev]\<rparr>"

definition load_json :: "string \<Rightarrow> state \<Rightarrow> pyval \<times> state" where
  "load_json filename s =
     (case data_files s filename of
        Document v \<Rightarrow> (v, s)
      | Missing \<Rightarrow> (PDict [], say (Warn_not_found filename) s)
      | Invalid_json \<Rightarrow> (PDict [], say (Err_invalid_json filename) s)
      | Unreadable \<Rightarrow> (PDict [], say (Err_loading filename) s))"

subsection \<open>Equipment\<close>

definition make_equipment :: "string \<Rightarrow> pyval \<Rightarrow> error + Equipment" where
  "make_equipment key data =
     (case py_int key of
        None \<Rightarrow> Inl ValueError
      | Some i \<Rightarrow>
          (case data of
             PDict d \<Rightarrow>
               and_then (table_get EQUIP_TYPES (dict_get d ''type'' (PInt 0)) ''Unknown'')
                 (\<lambda>type_name. Inr
                   \<lparr> equip_id = i,
                     equip_name = dict_get d ''name'' (PStr ''Unknown''),
                     equip_type = dict_get d ''type'' (PInt 0),
                     equip_type_name = type_name,
                     equip_rarity = dict_get d ''rarity'' (PInt 1),
                     equip_nationality = dict_get d ''nationality'' (PInt 0),
                     equip_tech = dict_get d ''tech'' (PInt 0),
                     equip_damage = PList [],
                     equip_reload = PList [],
                     equip_armor_modifiers = PList [],
                     equip_ammo_type = dict_get d ''ammo'' (PInt 0),
                     equip_weapon_ids = dict_get d ''weapon_id'' (PList []),
                     equip_parameters = dict_get d ''equip_parameters'' (PDict []),
                     equip_property_rate = dict_get d ''property_rate'' (PList []),
                     equip_value_2 = dict_get d ''value_2'' (PInt 0),
                     equip_value_3 = dict_get d ''value_3'' (PInt 0),
                     equip_description = dict_get d ''descrip'' (PStr []),
                     equip_speciality = dict_get d ''speciality'' (PStr []),
                     equip_part_main = dict_get d ''part_main'' (PList []),
                     equip_part_sub = dict_get d ''part_sub'' (PList []) \<rparr>)
           | _ \<Rightarrow> Inl AttributeError))"

text \<open>
  \<^verbatim>\<open>if equip_id in equip_templates: template = equip_templates[equip_id]; ...\<close>:
  only \<open>damage\<close>, \<open>reload\<close> and \<open>armor_modifiers\<close> are read from the template.
\<close>

definition merge_template :: "pyval \<Rightarrow> string \<Rightarrow> Equipment \<Rightarrow> error + Equipment" where
  "merge_template equip_templates key equip =
     and_then (contains key equip_templates)
       (\<lambda>present.
          if present then
            and_then (getitem equip_templates key)
              (\<lambda>template.
                 and_then (get template ''damage'' (PList []))
                   (\<lambda>damage.
                      and_then (get template ''reload'' (PList []))
                        (\<lambda>reload.
                           and_then (get template ''armor_modifiers'' (PList []))
                             (\<lambda>armor_modifiers. Inr
                                (equip\<lparr> equip_damage := damage, equip_reload := reload,
                                   equip_armor_modifiers := armor_modifiers \<rparr>)))))
          else Inr equip)"

definition parse_equipment_record :: "pyval \<Rightarrow> string \<Rightarrow> pyval \<Rightarrow> error + Equipment" where
  "parse_equipment_record equip_templates key data =
     and_then (make_equipment key data) (merge_template equip_templates key)"

fun parse_equipment_items :: "pyval \<Rightarrow> (string \<times> pyval) list \<Rightarrow> state \<Rightarrow> state" where
  "parse_equipment_items equip_templates [] s = s"
| "parse_equipment_items equip_templates (kv # rest) s =
     parse_equipment_items equip_templates rest
       (case parse_equipment_record equip_templates (fst kv) (snd kv) of
          Inl e \<Rightarrow> say (Err_parsing_equipment (fst kv) e) s
        | Inr equip \<Rightarrow> s\<lparr>equipment := setitem (equipment s) (equip_id equip) equip\<rparr>)"

text \<open>
  A state-changing method returns \<open>Inr\<close> the new state, or \<open>Inl\<close> the exception that
  left it together with the state at that moment.
\<close>

definition parse_equipment :: "state \<Rightarrow> error \<times> state + state" where
  "parse_equipment s =
     (case load_json ''equip_data_statistics.json'' s of
        (equip_stats, s1) \<Rightarrow>
          (case load_json ''equip_data_template.json'' s1 of
             (equip_templates, s2) \<Rightarrow>
               (case items equip_stats of
                  Inl e \<Rightarrow> Inl (e, s2)
                | Inr kvs \<Rightarrow> Inr (parse_equipment_items equip_templates kvs s2))))"

subsection \<open>Ships\<close>

text \<open>
  \<^verbatim>\<open>attrs[i] if len(attrs) > i else 0\<close>. \<^verbatim>\<open>len\<close> raises \<^verbatim>\<open>TypeError\<close> on \<^verbatim>\<open>None\<close>,
  booleans and integers; an integer index into a string gives the character as a string
  and into a dictionary, whose keys are strings, raises \<^verbatim>\<open>KeyError\<close>.
\<close>

definition item_or_zero :: "pyval \<Rightarrow> nat \<Rightarrow> error + pyval" where
  "item_or_zero attrs i =
     (case attrs of
        PList xs \<Rightarrow> Inr (if length xs > i then xs ! i else PInt 0)
      | PStr cs \<Rightarrow> Inr (if length cs > i then PStr [cs ! i] else PInt 0)
      | PDict d \<Rightarrow> (if length d > i then Inl KeyError else Inr (PInt 0))
      | _ \<Rightarrow> Inl TypeError)"

definition zeros12 :: pyval where
  "zeros12 = PList (replicate 12 (PInt 0))"

definition make_ship :: "string \<Rightarrow> pyval \<Rightarrow> error + Ship" where
  "make_ship key data =
     and_then (get data ''attrs'' zeros12) (\<lambda>attrs.
     and_then (get data ''attrs_growth'' zeros12) (\<lambda>attrs_growth.
     (case py_int key of
        None \<Rightarrow> Inl ValueError
      | Some i \<Rightarrow>
          (case data of
             PDict d \<Rightarrow>
               and_then (table_get SHIP_TYPES (dict_get d ''type'' (PInt 0)) ''Unknown'') (\<lambda>type_name.
               and_then (item_or_zero attrs 0) (\<lambda>hp.
               and_then (item_or_zero attrs 1) (\<lambda>firepower.
               and_then (item_or_zero attrs 2) (\<lambda>torpedo.
               and_then (item_or_zero attrs 3) (\<lambda>antiair.
               and_then (item_or_zero attrs 4) (\<lambda>aviation.
               and_then (item_or_zero attrs 5) (\<lambda>reload.
               and_then (item_or_zero attrs 6) (\<lambda>armor.
               and_then (item_or_zero attrs 7) (\<lambda>hit.
               and_then (item_or_zero attrs 8) (\<lambda>evasion.
               and_then (item_or_zero attrs 9) (\<lambda>speed.
               and_then (item_or_zero attrs 10) (\<lambda>luck.
               and_then (item_or_zero attrs 11) (\<lambda>antisub.
               and_then (item_or_zero attrs_growth 0) (\<lambda>hp_growth.
               and_then (item_or_zero attrs_growth 1) (\<lambda>firepower_growth.
               and_then (item_or_zero attrs_growth 2) (\<lambda>torpedo_growth.
               and_then (item_or_zero attrs_growth 3) (\<lambda>antiair_growth.
               and_then (item_or_zero attrs_growth 4) (\<lambda>aviation_growth.
               and_then (item_or_zero attrs_growth 5) (\<lambda>reload_growth.
               and_then (item_or_zero attrs_growth 6) (\<lambda>armor_growth.
               and_then (item_or_zero attrs_growth 7) (\<lambda>hit_growth.
               and_then (item_or_zero attrs_growth 8) (\<lambda>evasion_growth.
               and_then (item_or_zero attrs_growth 11) (\<lambda>antisub_growth.
               Inr
                 \<lparr> ship_id = i,
                   ship_name = dict_get d ''name'' (PStr ''Unknown''),
                   ship_english_name = dict_get d ''english_name'' (PStr []),
                   ship_type = dict_get d ''type'' (PInt 0),
                   ship_type_name = type_name,
                   ship_nationality = dict_get d ''nationality'' (PInt 0),
                   ship_rarity = dict_get d ''rarity'' (PInt 1),
                   ship_star = dict_get d ''star'' (PInt 1),
                   ship_armor_type = dict_get d ''armor_type'' (PInt 1),
                   ship_hp = hp,
                   ship_firepower = firepower,
                   ship_torpedo = torpedo,
                   ship_antiair = antiair,
                   ship_aviation = aviation,
                   ship_reload = reload,
                   ship_armor = armor,
                   ship_hit = hit,
                   ship_evasion = evasion,
                   ship_speed = speed,
                   ship_luck = luck,
                   ship_antisub = antisub,
                   ship_hp_growth = hp_growth,
                   ship_firepower_growth = firepower_growth,
                   ship_torpedo_growth = torpedo_growth,
                   ship_antiair_growth = antiair_growth,
                   ship_aviation_growth = aviation_growth,
                   ship_reload_growth = reload_growth,
                   ship_armor_growth = armor_growth,
                   ship_hit_growth = hit_growth,
                   ship_evasion_growth = evasion_growth,
                   ship_antisub_growth = antisub_growth,
                   ship_equipment_proficiency = dict_get d ''equipment_proficiency'' (PList []),
                   ship_base_list = dict_get d ''base_list'' (PList []),
                   ship_preload_count = dict_get d ''preload_count'' (PList []) \<rparr>
               )))))))))))))))))))))))
           | _ \<Rightarrow> Inl AttributeError))))"

fun parse_ships_items :: "(string \<times> pyval) list \<Rightarrow> state \<Rightarrow> state" where
  "parse_ships_items [] s = s"
| "parse_ships_items (kv # rest) s =
     parse_ships_items rest
       (case make_ship (fst kv) (snd kv) of
          Inl e \<Rightarrow> say (Err_parsing_ship (fst kv) e) s
        | Inr ship \<Rightarrow> s\<lparr>ships := setitem (ships s) (ship_id ship) ship\<rparr>)"

definition parse_ships :: "state \<Rightarrow> error \<times> state + state" where
  "parse_ships s =
     (case load_json ''ship_data_statistics.json'' s of
        (ship_stats, s1) \<Rightarrow>
          (case load_json ''ship_data_template.json'' s1 of
             (ship_templates, s2) \<Rightarrow>
               (case items ship_stats of
                  Inl e \<Rightarrow> Inl (e, s2)
                | Inr kvs \<Rightarrow> Inr (parse_ships_items kvs s2))))"

subsection \<open>Weapons\<close>

text \<open>
  \<^verbatim>\<open>{int(k): v for k, v in weapon_names.items() if k.isdigit()}\<close>: a later key with the
  same integer replaces the value and keeps the place of the earlier one.
\<close>

fun int_keys :: "(string \<times> pyval) list \<Rightarrow> (int \<times> pyval) list \<Rightarrow> error + (int \<times> pyval) list" where
  "int_keys [] acc = Inr acc"
| "int_keys (kv # rest) acc =
     (if isdigit (fst kv) then
        (case py_int (fst kv) of
           None \<Rightarrow> Inl ValueError
         | Some i \<Rightarrow> int_keys rest (setitem acc i (snd kv)))
      else int_keys rest acc)"

definition make_weapon :: "(int \<times> pyval) list \<Rightarrow> string \<Rightarrow> pyval \<Rightarrow> error + Weapon" where
  "make_weapon names key data =
     (case py_int key of
        None \<Rightarrow> Inl ValueError
      | Some i \<Rightarrow>
          (case data of
             PDict d \<Rightarrow> Inr
               \<lparr> weapon_id = i,
                 weapon_name = dict_get names i (PStr []),
                 weapon_damage = dict_get d ''damage'' (PInt 0),
                 weapon_reload_max = dict_get d ''reload_max'' (PInt 0),
                 weapon_bullet_id = dict_get d ''bullet_ID'' (PInt 0),
                 weapon_barrage_id = dict_get d ''barrage_ID'' (PInt 0),
                 weapon_spawn_bound = dict_get d ''spawn_bound'' (PStr []),
                 weapon_fire_fx = dict_get d ''fire_fx'' (PStr []),
                 weapon_type = dict_get d ''type'' (PInt 0),
                 weapon_range = dict_get d ''range'' (PInt 0),
                 weapon_angle = dict_get d ''angle'' (PInt 0),
                 weapon_min_range = dict_get d ''min_range'' (PInt 0),
                 weapon_aim_type = dict_get d ''aim_type'' (PInt 0) \<rparr>
           | _ \<Rightarrow> Inl AttributeError))"

fun parse_weapons_items :: "(string \<times> pyval) list \<Rightarrow> state \<Rightarrow> state" where
  "parse_weapons_items [] s = s"
| "parse_weapons_items (kv # rest) s =
     parse_weapons_items rest
       (case make_weapon (weapon_names s) (fst kv) (snd kv) of
          Inl e \<Rightarrow> say (Err_parsing_weapon (fst kv) e) s
        | Inr weapon \<Rightarrow> s\<lparr>weapons := setitem (weapons s) (weapon_id weapon) weapon\<rparr>)"

definition parse_weapons :: "state \<Rightarrow> error \<times> state + state" where
  "parse_weapons s =
     (case load_json ''weapon_name.json'' s of
        (names_doc, s1) \<Rightarrow>
          (case and_then (items names_doc) (\<lambda>kvs. int_keys kvs []) of
             Inl e \<Rightarrow> Inl (e, s1)
           | Inr names \<Rightarrow>
               (case load_json ''weapon_property.json'' (s1\<lparr>weapon_names := names\<rparr>) of
                  (weapon_property, s2) \<Rightarrow>
                    (case (if truthy weapon_property then (weapon_property, s2)
                           else load_json ''bullet_template.json'' (say Note_weapon_fallback s2)) of
                       (weapon_data, s3) \<Rightarrow>
                         (case items weapon_data of
                            Inl e \<Rightarrow> Inl (e, s3)
                          | Inr kvs \<Rightarrow> Inr (parse_weapons_items kvs s3))))))"

section \<open>Export\<close>

subsection \<open>Sanitizing a field\<close>

definition formula_chars :: "char list" where
  "formula_chars = [CHR ''='', CHR ''+'', CHR ''-'', CHR ''@'', CHR 0x09, CHR 0x0D]"

definition sanitize_csv_field :: "pyval \<Rightarrow> string" where
  "sanitize_csv_field v =
     (case v of
        PStr (c # cs) \<Rightarrow> if c \<in> set formula_chars then CHR 0x27 # c # cs else str v
      | _ \<Rightarrow> str v)"

subsection \<open>Rows\<close>

text \<open>
  The text the \<^verbatim>\<open>csv\<close> writer puts in a cell, before the quoting of its dialect:
  \<^verbatim>\<open>None\<close> is the empty string, a string is itself, any other value is its \<^verbatim>\<open>str\<close>.
\<close>

definition cell_text :: "pyval \<Rightarrow> string" where
  "cell_text v = (case v of PNone \<Rightarrow> [] | _ \<Rightarrow> str v)"

text \<open>
  Iterating a value, as \<^verbatim>\<open>map(str, equip.weapon_ids)\<close> does: the items of a list, the
  characters of a string, the keys of a dictionary; other values are not iterable.
\<close>

definition iterate :: "pyval \<Rightarrow> error + pyval list" where
  "iterate v =
     (case v of
        PList xs \<Rightarrow> Inr xs
      | PStr cs \<Rightarrow> Inr (map (\<lambda>c. PStr [c]) cs)
      | PDict d \<Rightarrow> Inr (map (\<lambda>kv. PStr (fst kv)) d)
      | _ \<Rightarrow> Inl TypeError)"

definition equipment_fieldnames :: "string list" where
  "equipment_fieldnames =
     [''id'', ''name'', ''type_name'', ''rarity'', ''nationality'', ''tech'',
      ''weapon_ids'', ''description'', ''speciality'']"

definition equipment_row :: "Equipment \<Rightarrow> error + string list" where
  "equipment_row equip =
     and_then (table_get RARITIES (equip_rarity equip) ''Unknown'') (\<lambda>rarity.
     and_then (table_get NATIONS (equip_nationality equip) ''Unknown'') (\<lambda>nationality.
     and_then (iterate (equip_weapon_ids equip)) (\<lambda>ids. Inr
       [cell_text (PInt (equip_id equip)),
        sanitize_csv_field (equip_name equip),
        equip_type_name equip,
        rarity,
        nationality,
        cell_text (equip_tech equip),
        join '','' (map str ids),
        sanitize_csv_field (equip_description equip),
        sanitize_csv_field (equip_speciality equip)])))"

definition ship_fieldnames :: "string list" where
  "ship_fieldnames =
     [''id'', ''name'', ''english_name'', ''type_name'', ''rarity'', ''nationality'',
      ''hp'', ''firepower'', ''torpedo'', ''antiair'', ''aviation'', ''reload'',
      ''armor'', ''hit'', ''evasion'', ''speed'', ''luck'', ''antisub'']"

definition ship_row :: "Ship \<Rightarrow> error + string list" where
  "ship_row ship =
     and_then (table_get RARITIES (ship_rarity ship) ''Unknown'') (\<lambda>rarity.
     and_then (table_get NATIONS (ship_nationality ship) ''Unknown'') (\<lambda>nationality. Inr
       [cell_text (PInt (ship_id ship)),
        sanitize_csv_field (ship_name ship),
        sanitize_csv_field (ship_english_name ship),
        ship_type_name ship,
        rarity,
        nationality,
        cell_text (ship_hp ship),
        cell_text (ship_firepower ship),
        cell_text (ship_torpedo ship),
        cell_text (ship_antiair ship),
        cell_text (ship_aviation ship),
        cell_text (ship_reload ship),
        cell_text (ship_armor ship),
        cell_text (ship_hit ship),
        cell_text (ship_evasion ship),
        cell_text (ship_speed ship),
        cell_text (ship_luck ship),
        cell_text (ship_antisub ship)]))"

definition weapon_fieldnames :: "string list" where
  "weapon_fieldnames =
     [''id'', ''name'', ''damage'', ''reload_max'', ''range'', ''angle'', ''type'']"

text \<open>\<^verbatim>\<open>weapon.name or f"Weapon_{weapon.id}"\<close>\<close>

definition name_or_placeholder :: "Weapon \<Rightarrow> pyval" where
  "name_or_placeholder weapon =
     (if truthy (weapon_name weapon) then weapon_name weapon
      else PStr (''Weapon_'' @ str_int (weapon_id weapon)))"

definition weapon_row :: "Weapon \<Rightarrow> error + string list" where
  "weapon_row weapon = Inr
     [cell_text (PInt (weapon_id weapon)),
      sanitize_csv_field (name_or_placeholder weapon),
      cell_text (weapon_damage weapon),
      cell_text (weapon_reload_max weapon),
      cell_text (weapon_range weapon),
      cell_text (weapon_angle weapon),
      cell_text (weapon_type weapon)]"

subsection \<open>\<^verbatim>\<open>export_to_csv\<close>\<close>

text \<open>
  The loop \<^verbatim>\<open>for x in ...: row = {...}; writer.writerow(row)\<close>: a row that raises ends
  the loop, and the rows written before it stay in the file.
\<close>

fun write_rows ::
  "('a \<Rightarrow> error + string list) \<Rightarrow> 'a list \<Rightarrow> string list list \<Rightarrow> error option \<times> string list list" where
  "write_rows row [] written = (None, written)"
| "write_rows row (x # xs) written =
     (case row x of
        Inl e \<Rightarrow> (Some e, written)
      | Inr r \<Rightarrow> write_rows row xs (written @ [r]))"

definition put_file :: "string \<Rightarrow> content \<Rightarrow> state \<Rightarrow> state" where
  "put_file name c s = s\<lparr>out_files := (out_files s)(name \<mapsto> c)\<rparr>"

text \<open>
  One block of \<^verbatim>\<open>export_to_csv\<close>:
  \<^verbatim>\<open>with open(file, 'w') as f: if collection: writer.writeheader(); for x in sorted(...): ...\<close>.
  Opening truncates the file. With an empty collection nothing is written, not even the
  header. \<^verbatim>\<open>sorted\<close> is evaluated after the header is written.
\<close>

definition write_csv ::
  "string \<Rightarrow> string list \<Rightarrow> 'a list \<Rightarrow> ('a list \<Rightarrow> error + 'a list) \<Rightarrow> ('a \<Rightarrow> error + string list)
     \<Rightarrow> state \<Rightarrow> error \<times> state + state" where
  "write_csv name fieldnames collection in_order row s =
     (if \<not> can_open s name then Inl (OSError, s)
      else if collection = [] then Inr (put_file name (Csv []) s)
      else
        (case in_order collection of
           Inl e \<Rightarrow> Inl (e, put_file name (Csv [fieldnames]) s)
         | Inr xs \<Rightarrow>
             (case write_rows row xs [fieldnames] of
                (Some e, rows) \<Rightarrow> Inl (e, put_file name (Csv rows) s)
              | (None, rows) \<Rightarrow> Inr (put_file name (Csv rows) s))))"

definition and_next ::
  "error \<times> state + state \<Rightarrow> (state \<Rightarrow> error \<times> state + state) \<Rightarrow> error \<times> state + state" where
  "and_next r f = (case r of Inl es \<Rightarrow> Inl es | Inr s \<Rightarrow> f s)"

definition export_equipment_csv :: "state \<Rightarrow> error \<times> state + state" where
  "export_equipment_csv s =
     write_csv ''equipment.csv'' equipment_fieldnames (dict_values (equipment s))
       (sorted_by py_lt_list (\<lambda>x. [equip_type x, equip_rarity x, equip_tech x]))
       equipment_row s"

definition export_ships_csv :: "state \<Rightarrow> error \<times> state + state" where
  "export_ships_csv s =
     write_csv ''ships.csv'' ship_fieldnames (dict_values (ships s))
       (sorted_by py_lt_list (\<lambda>x. [ship_type x, ship_rarity x, PInt (ship_id x)]))
       ship_row s"

definition export_weapons_csv :: "state \<Rightarrow> error \<times> state + state" where
  "export_weapons_csv s =
     write_csv ''weapons.csv'' weapon_fieldnames (dict_values (weapons s))
       (sorted_by int_lt weapon_id)
       weapon_row s"

definition export_to_csv :: "state \<Rightarrow> error \<times> state + state" where
  "export_to_csv s =
     (if \<not> can_make_dir s then Inr (say (Err_creating_output_directory OSError) s)
      else and_next (and_next (export_equipment_csv s) export_ships_csv) export_weapons_csv)"

subsection \<open>A new parser\<close>

text \<open>
  \<^verbatim>\<open>AzurLaneDataParser()\<close> in a given world: the collections start empty and nothing
  has been printed.
\<close>

definition new_parser ::
  "(string \<Rightarrow> file_state) \<Rightarrow> bool \<Rightarrow> (string \<Rightarrow> bool) \<Rightarrow> (string \<Rightarrow> content option) \<Rightarrow> state" where
  "new_parser files mk opn outs =
     \<lparr> equipment = [], ships = [], weapons = [], weapon_names = [],
       data_files = files, can_make_dir = mk, can_open = opn, out_files = outs,
       console = [] \<rparr>"

definition no_files :: "string \<Rightarrow> file_state" where
  "no_files = (\<lambda>_. Missing)"

definition any_file :: "string \<Rightarrow> bool" where
  "any_file = (\<lambda>_. True)"

section \<open>Reports\<close>

text \<open>
  \<^verbatim>\<open>analyze_equipment_stats\<close> and \<^verbatim>\<open>analyze_ship_stats\<close> only print, so what the
  model keeps of them is whether they return or raise.
\<close>

text \<open>
  \<^verbatim>\<open>groups[f(x)].append(x)\<close> on a \<^verbatim>\<open>defaultdict(list)\<close>: a new key is added at the end
  with an empty list.
\<close>

fun group_by :: "('a \<Rightarrow> string) \<Rightarrow> 'a list \<Rightarrow> (string \<times> 'a list) list \<Rightarrow> (string \<times> 'a list) list" where
  "group_by f [] groups = groups"
| "group_by f (x # xs) groups =
     group_by f xs (setitem groups (f x) (dict_get groups (f x) [] @ [x]))"

definition name_lt :: "string \<Rightarrow> string \<Rightarrow> bool option" where
  "name_lt a b = Some (str_lt a b)"

fun for_each :: "('a \<Rightarrow> error + unit) \<Rightarrow> 'a list \<Rightarrow> error + unit" where
  "for_each f [] = Inr ()"
| "for_each f (x # xs) = and_then (f x) (\<lambda>_. for_each f xs)"

text \<open>\<^verbatim>\<open>x[0]\<close>\<close>

definition first_item :: "pyval \<Rightarrow> error + pyval" where
  "first_item v =
     (case v of
        PList xs \<Rightarrow> (case xs of [] \<Rightarrow> Inl IndexError | x # _ \<Rightarrow> Inr x)
      | PStr cs \<Rightarrow> (case cs of [] \<Rightarrow> Inl IndexError | c # _ \<Rightarrow> Inr (PStr [c]))
      | PDict d \<Rightarrow> Inl KeyError
      | _ \<Rightarrow> Inl TypeError)"

text \<open>The body of \<^verbatim>\<open>for item in sorted_items\<close> in \<^verbatim>\<open>analyze_equipment_stats\<close>.\<close>

definition report_equipment :: "Equipment \<Rightarrow> error + unit" where
  "report_equipment item =
     and_then (table_get RARITIES (equip_rarity item) ''Unknown'') (\<lambda>rarity_name.
     and_then (table_get NATIONS (equip_nationality item) ''Unknown'') (\<lambda>nation_name.
       if truthy (equip_weapon_ids item) then
         and_then (first_item (equip_weapon_ids item)) (\<lambda>weapon_id.
         and_then (hash_key weapon_id) (\<lambda>_. Inr ()))
       else Inr ()))"

definition report_equipment_type :: "string \<times> Equipment list \<Rightarrow> error + unit" where
  "report_equipment_type g =
     and_then (sorted_by_reverse py_lt_list (\<lambda>x. [equip_rarity x, equip_tech x]) (snd g))
       (\<lambda>sorted_items. for_each report_equipment (take 5 sorted_items))"

text \<open>
  The groups are visited in the order of \<^verbatim>\<open>sorted(equip_by_type.items())\<close>; their
  names are different, so the order is that of the names.
\<close>

definition analyze_equipment_stats :: "state \<Rightarrow> error \<times> state + state" where
  "analyze_equipment_stats s =
     (case and_then (sorted_by name_lt fst (group_by equip_type_name (dict_values (equipment s)) []))
             (for_each report_equipment_type) of
        Inl e \<Rightarrow> Inl (e, s)
      | Inr _ \<Rightarrow> Inr s)"

text \<open>
  \<^verbatim>\<open>sum(s.hp for s in ships) / len(ships)\<close>: the sum starts at 0 and adds integers
  and booleans only. The quotient of two integers is a float, and the division raises
  \<^verbatim>\<open>OverflowError\<close> when the rounded quotient is beyond the largest float.
\<close>

fun py_sum :: "pyval list \<Rightarrow> int \<Rightarrow> error + int" where
  "py_sum [] acc = Inr acc"
| "py_sum (v # vs) acc =
     (case as_int v of None \<Rightarrow> Inl TypeError | Some i \<Rightarrow> py_sum vs (acc + i))"

definition average :: "pyval list \<Rightarrow> error + unit" where
  "average vs =
     and_then (py_sum vs 0) (\<lambda>total.
       if \<bar>total\<bar> \<ge> (2 ^ 1024 - 2 ^ 970) * int (length vs) then Inl OverflowError
       else Inr ())"

definition report_ship :: "Ship \<Rightarrow> error + unit" where
  "report_ship ship =
     and_then (table_get RARITIES (ship_rarity ship) ''Unknown'') (\<lambda>rarity_name.
     and_then (table_get NATIONS (ship_nationality ship) ''Unknown'') (\<lambda>nation_name. Inr ()))"

definition report_ship_type :: "string \<times> Ship list \<Rightarrow> error + unit" where
  "report_ship_type g =
     (if snd g = [] then Inr ()
      else
        and_then (average (map ship_hp (snd g))) (\<lambda>avg_hp.
        and_then (average (map ship_firepower (snd g))) (\<lambda>avg_fp.
        and_then (average (map ship_torpedo (snd g))) (\<lambda>avg_torp.
        and_then (average (map ship_antiair (snd g))) (\<lambda>avg_aa.
        and_then (sorted_by_reverse py_lt_list (\<lambda>x. [ship_rarity x, ship_hp x]) (snd g))
          (\<lambda>top_ships. for_each report_ship (take 3 top_ships)))))))"

definition analyze_ship_stats :: "state \<Rightarrow> error \<times> state + state" where
  "analyze_ship_stats s =
     (case and_then (sorted_by name_lt fst (group_by ship_type_name (dict_values (ships s)) []))
             (for_each report_ship_type) of
        Inl e \<Rightarrow> Inl (e, s)
      | Inr _ \<Rightarrow> Inr s)"

section \<open>The structured export\<close>

text \<open>\<^verbatim>\<open>asdict(equip)\<close>: the fields in the order of their declaration.\<close>

definition asdict_equipment :: "Equipment \<Rightarrow> (string \<times> pyval) list" where
  "asdict_equipment equip =
     [(''id'', PInt (equip_id equip)),
      (''name'', equip_name equip),
      (''type'', equip_type equip),
      (''type_name'', PStr (equip_type_name equip)),
      (''rarity'', equip_rarity equip),
      (''nationality'', equip_nationality equip),
      (''tech'', equip_tech equip),
      (''damage'', equip_damage equip),
      (''reload'', equip_reload equip),
      (''armor_modifiers'', equip_armor_modifiers equip),
      (''ammo_type'', equip_ammo_type equip),
      (''weapon_ids'', equip_weapon_ids equip),
      (''equip_parameters'', equip_parameters equip),
      (''property_rate'', equip_property_rate equip),
      (''value_2'', equip_value_2 equip),
      (''value_3'', equip_value_3 equip),
      (''description'', equip_description equip),
      (''speciality'', equip_speciality equip),
      (''part_main'', equip_part_main equip),
      (''part_sub'', equip_part_sub equip)]"

definition asdict_ship :: "Ship \<Rightarrow> (string \<times> pyval) list" where
  "asdict_ship ship =
     [(''id'', PInt (ship_id ship)),
      (''name'', ship_name ship),
      (''english_name'', ship_english_name ship),
      (''type'', ship_type ship),
      (''type_name'', PStr (ship_type_name ship)),
      (''nationality'', ship_nationality ship),
      (''rarity'', ship_rarity ship),
      (''star'', ship_star ship),
      (''armor_type'', ship_armor_type ship),
      (''hp'', ship_hp ship),
      (''firepower'', ship_firepower ship),
      (''torpedo'', ship_torpedo ship),
      (''antiair'', ship_antiair ship),
      (''aviation'', ship_aviation ship),
      (''reload'', ship_reload ship),
      (''armor'', ship_armor ship),
      (''hit'', ship_hit ship),
      (''evasion'', ship_evasion ship),
      (''speed'', ship_speed ship),
      (''luck'', ship_luck ship),
      (''antisub'', ship_antisub ship),
      (''hp_growth'', ship_hp_growth ship),
      (''firepower_growth'', ship_firepower_growth ship),
      (''torpedo_growth'', ship_torpedo_growth ship),
      (''antiair_growth'', ship_antiair_growth ship),
      (''aviation_growth'', ship_aviation_growth ship),
      (''reload_growth'', ship_reload_growth ship),
      (''armor_growth'', ship_armor_growth ship),
      (''hit_growth'', ship_hit_growth ship),
      (''evasion_growth'', ship_evasion_growth ship),
      (''antisub_growth'', ship_antisub_growth ship),
      (''equipment_proficiency'', ship_equipment_proficiency ship),
      (''base_list'', ship_base_list ship),
      (''preload_count'', ship_preload_count ship)]"

text \<open>
  One pass of \<^verbatim>\<open>for x in collection.values(): d = asdict(x); d['rarity_name'] = ...;
  d['nation_name'] = ...; by_type[x.type_name].append(d)\<close>.
\<close>

definition enrich :: "(string \<times> pyval) list \<Rightarrow> pyval \<Rightarrow> pyval \<Rightarrow> error + pyval" where
  "enrich d rarity nationality =
     and_then (table_get RARITIES rarity ''Unknown'') (\<lambda>rarity_name.
     and_then (table_get NATIONS nationality ''Unknown'') (\<lambda>nation_name.
       Inr (PDict (setitem (setitem d ''rarity_name'' (PStr rarity_name))
                     ''nation_name'' (PStr nation_name)))))"

fun by_type ::
  "('a \<Rightarrow> error + pyval) \<Rightarrow> ('a \<Rightarrow> string) \<Rightarrow> 'a list \<Rightarrow> (string \<times> pyval list) list
     \<Rightarrow> error + (string \<times> pyval list) list" where
  "by_type record type_name [] groups = Inr groups"
| "by_type record type_name (x # xs) groups =
     and_then (record x) (\<lambda>d.
       by_type record type_name xs
         (setitem groups (type_name x) (dict_get groups (type_name x) [] @ [d])))"

definition grouped_document :: "(string \<times> pyval list) list \<Rightarrow> pyval" where
  "grouped_document groups = PDict (map (\<lambda>g. (fst g, PList (snd g))) groups)"

definition summary_document ::
  "state \<Rightarrow> (string \<times> pyval list) list \<Rightarrow> (string \<times> pyval list) list \<Rightarrow> pyval" where
  "summary_document s equip_by_type ships_by_type =
     PDict
       [(''total_equipment'', PInt (int (length (equipment s)))),
        (''total_ships'', PInt (int (length (ships s)))),
        (''total_weapons'', PInt (int (length (weapons s)))),
        (''equipment_types'', PList (map (\<lambda>g. PStr (fst g)) equip_by_type)),
        (''ship_types'', PList (map (\<lambda>g. PStr (fst g)) ships_by_type)),
        (''nationalities'', PList (map PStr (dict_values NATIONS))),
        (''rarities'', PList (map PStr (dict_values RARITIES)))]"

definition write_json :: "string \<Rightarrow> pyval \<Rightarrow> state \<Rightarrow> error \<times> state + state" where
  "write_json name doc s =
     (if \<not> can_open s name then Inl (OSError, s) else Inr (put_file name (Json doc) s))"

text \<open>
  \<^verbatim>\<open>export_to_json\<close> calls \<^verbatim>\<open>os.makedirs\<close> outside any \<^verbatim>\<open>try\<close>: when the directory
  cannot be created the exception leaves the method.
\<close>

definition export_to_json :: "state \<Rightarrow> error \<times> state + state" where
  "export_to_json s =
     (if \<not> can_make_dir s then Inl (OSError, s)
      else
        (case by_type (\<lambda>equip. enrich (asdict_equipment equip) (equip_rarity equip)
                         (equip_nationality equip))
                equip_type_name (dict_values (equipment s)) [] of
           Inl e \<Rightarrow> Inl (e, s)
         | Inr equip_by_type \<Rightarrow>
             and_next (write_json ''equipment_by_type.json'' (grouped_document equip_by_type) s)
               (\<lambda>s1.
                  (case by_type (\<lambda>ship. enrich (asdict_ship ship) (ship_rarity ship)
                                   (ship_nationality ship))
                          ship_type_name (dict_values (ships s1)) [] of
                     Inl e \<Rightarrow> Inl (e, s1)
                   | Inr ships_by_type \<Rightarrow>
                       and_next (write_json ''ships_by_type.json'' (grouped_document ships_by_type) s1)
                         (write_json ''summary.json''
                            (summary_document s1 equip_by_type ships_by_type))))))"

section \<open>The run\<close>

definition run :: "state \<Rightarrow> error \<times> state + state" where
  "run s =
     and_next (and_next (and_next (and_next (and_next (and_next
       (parse_weapons s)
       parse_equipment)
       parse_ships)
       analyze_equipment_stats)
       analyze_ship_stats)
       export_to_csv)
       export_to_json"

section \<open>The progress file\<close>

text \<open>
  \<^verbatim>\<open>scripts/utils.py\<close>. Its \<^verbatim>\<open>load_json\<close> returns an empty list when the file does not
  exist and lets the exceptions of reading and decoding through.
\<close>

definition utils_load_json :: "file_state \<Rightarrow> error + pyval" where
  "utils_load_json f =
     (case f of
        Missing \<Rightarrow> Inr (PList [])
      | Invalid_json \<Rightarrow> Inl JSONDecodeError
      | Unreadable \<Rightarrow> Inl OSError
      | Document v \<Rightarrow> Inr v)"

definition buckets :: "string list" where
  "buckets = [''basic'', ''completed'', ''partial'', ''failed'']"

definition required_keys :: "(string \<times> pyval) list" where
  "required_keys =
     [(''basic'', PList []), (''completed'', PList []), (''partial'', PList []),
      (''failed'', PList []), (''retry_queue'', PList []), (''last_updated'', PStr [])]"

text \<open>\<^verbatim>\<open>for key, default in (...): if key not in progress: progress[key] = default\<close>\<close>

fun ensure_keys :: "(string \<times> pyval) list \<Rightarrow> (string \<times> pyval) list \<Rightarrow> (string \<times> pyval) list" where
  "ensure_keys [] progress = progress"
| "ensure_keys (kd # rest) progress =
     ensure_keys rest
       (if map_of progress (fst kd) = None then setitem progress (fst kd) (snd kd) else progress)"

text \<open>
  \<^verbatim>\<open>current_list.remove(item_name)\<close> removes the first item equal to the name, and only
  a list is searched.
\<close>

definition remove_from :: "string \<Rightarrow> pyval \<Rightarrow> pyval" where
  "remove_from item_name current_list =
     (case current_list of
        PList xs \<Rightarrow> if PStr item_name \<in> set xs then PList (remove1 (PStr item_name) xs)
                    else current_list
      | _ \<Rightarrow> current_list)"

fun remove_everywhere :: "string \<Rightarrow> string list \<Rightarrow> (string \<times> pyval) list \<Rightarrow> (string \<times> pyval) list" where
  "remove_everywhere item_name [] progress = progress"
| "remove_everywhere item_name (list_name # rest) progress =
     remove_everywhere item_name rest
       (setitem progress list_name (remove_from item_name (dict_get progress list_name (PList []))))"

definition add_to :: "string \<Rightarrow> string \<Rightarrow> (string \<times> pyval) list \<Rightarrow> (string \<times> pyval) list" where
  "add_to item_name status progress =
     (if status \<in> set buckets then
        setitem progress status
          (PList ((case dict_get progress status (PList []) of PList xs \<Rightarrow> xs | _ \<Rightarrow> [])
                  @ [PStr item_name]))
      else progress)"

text \<open>
  \<^verbatim>\<open>update_progress\<close> on the state of \<^verbatim>\<open>progress.json\<close>; \<open>now\<close> is the text of
  \<^verbatim>\<open>datetime.now().isoformat()\<close> and \<open>writable\<close> says whether the file can be opened for
  writing.
\<close>

definition update_progress ::
  "bool \<Rightarrow> string \<Rightarrow> file_state \<Rightarrow> string \<Rightarrow> string \<Rightarrow> error + file_state" where
  "update_progress writable now f item_name status =
     (case utils_load_json f of
        Inl e \<Rightarrow> Inl e
      | Inr raw \<Rightarrow>
          let progress0 = (case raw of PDict d \<Rightarrow> d | _ \<Rightarrow> []);
              progress1 = ensure_keys required_keys progress0;
              progress2 = remove_everywhere item_name buckets progress1;
              progress3 = add_to item_name status progress2;
              progress4 = setitem progress3 ''last_updated'' (PStr now)
          in if writable then Inr (Document (PDict progress4)) else Inl OSError)"

text \<open>The names held by a bucket of a progress document: a bucket that is not a list holds none.\<close>

definition items_of :: "pyval option \<Rightarrow> pyval list" where
  "items_of v = (case v of Some (PList xs) \<Rightarrow> xs | _ \<Rightarrow> [])"

definition bucket_items :: "pyval \<Rightarrow> string \<Rightarrow> pyval list" where
  "bucket_items doc b = (case doc of PDict d \<Rightarrow> items_of (map_of d b) | _ \<Rightarrow> [])"

definition holding :: "pyval \<Rightarrow> string \<Rightarrow> string list" where
  "holding doc item_name = filter (\<lambda>b. PStr item_name \<in> set (bucket_items doc b)) buckets"

definition at_most_once :: "pyval \<Rightarrow> string \<Rightarrow> bool" where
  "at_most_once doc item_name =
     list_all (\<lambda>b. count_list (bucket_items doc b) (PStr item_name) \<le> 1) buckets"

section \<open>Notions used in the statements\<close>

text \<open>
  The value \<^verbatim>\<open>attrs[n] if len(attrs) > n else 0\<close> has for a list, and the values that can
  be indexed this way without an exception: lists, strings and the empty dictionary.
\<close>

definition entry :: "pyval list \<Rightarrow> nat \<Rightarrow> pyval" where
  "entry xs n = (if n < length xs then xs ! n else PInt 0)"

definition indexable :: "pyval \<Rightarrow> bool" where
  "indexable v = (case v of PList _ \<Rightarrow> True | PStr _ \<Rightarrow> True | PDict d \<Rightarrow> d = [] | _ \<Rightarrow> False)"

text \<open>
  The base stats of a ship in the order of the \<^verbatim>\<open>attrs\<close> array, and for each position
  the growth field of the same stat: \<^verbatim>\<open>hp_growth\<close> for \<^verbatim>\<open>hp\<close> and so on. The class has
  no \<^verbatim>\<open>speed_growth\<close> and no \<^verbatim>\<open>luck_growth\<close>.
\<close>

definition base_stats :: "Ship \<Rightarrow> pyval list" where
  "base_stats ship =
     [ship_hp ship, ship_firepower ship, ship_torpedo ship, ship_antiair ship,
      ship_aviation ship, ship_reload ship, ship_armor ship, ship_hit ship,
      ship_evasion ship, ship_speed ship, ship_luck ship, ship_antisub ship]"

definition growth_stats :: "Ship \<Rightarrow> pyval option list" where
  "growth_stats ship =
     [Some (ship_hp_growth ship), Some (ship_firepower_growth ship),
      Some (ship_torpedo_growth ship), Some (ship_antiair_growth ship),
      Some (ship_aviation_growth ship), Some (ship_reload_growth ship),
      Some (ship_armor_growth ship), Some (ship_hit_growth ship),
      Some (ship_evasion_growth ship), None, None, Some (ship_antisub_growth ship)]"

definition positions :: "nat list" where
  "positions = [0, 1, 2, 3, 4, 5, 6, 7, 8, 9, 10, 11]"

text \<open>
  The fields that \<^verbatim>\<open>parse_equipment\<close> and \<^verbatim>\<open>parse_ships\<close> read with
  \<^verbatim>\<open>data.get(key, default)\<close>: the key in the record, the field of the entity, the default.
\<close>

definition equipment_defaults :: "(string \<times> (Equipment \<Rightarrow> pyval) \<times> pyval) list" where
  "equipment_defaults =
     [(''name'', equip_name, PStr ''Unknown''),
      (''type'', equip_type, PInt 0),
      (''rarity'', equip_rarity, PInt 1),
      (''nationality'', equip_nationality, PInt 0),
      (''tech'', equip_tech, PInt 0),
      (''weapon_id'', equip_weapon_ids, PList []),
      (''ammo'', equip_ammo_type, PInt 0),
      (''value_2'', equip_value_2, PInt 0),
      (''value_3'', equip_value_3, PInt 0),
      (''descrip'', equip_description, PStr []),
      (''speciality'', equip_speciality, PStr []),
      (''part_main'', equip_part_main, PList []),
      (''part_sub'', equip_part_sub, PList []),
      (''property_rate'', equip_property_rate, PList []),
      (''equip_parameters'', equip_parameters, PDict [])]"

definition ship_defaults :: "(string \<times> (Ship \<Rightarrow> pyval) \<times> pyval) list" where
  "ship_defaults =
     [(''name'', ship_name, PStr ''Unknown''),
      (''english_name'', ship_english_name, PStr []),
      (''type'', ship_type, PInt 0),
      (''nationality'', ship_nationality, PInt 0),
      (''rarity'', ship_rarity, PInt 1),
      (''star'', ship_star, PInt 1),
      (''armor_type'', ship_armor_type, PInt 1),
      (''equipment_proficiency'', ship_equipment_proficiency, PList []),
      (''base_list'', ship_base_list, PList []),
      (''preload_count'', ship_preload_count, PList [])]"

definition defaults_hold :: "(string \<times> pyval) list \<Rightarrow> 'a \<Rightarrow> (string \<times> ('a \<Rightarrow> pyval) \<times> pyval) list \<Rightarrow> bool" where
  "defaults_hold d x table =
     list_all (\<lambda>row. map_of d (fst row) = None \<longrightarrow> fst (snd row) x = snd (snd row)) table"

text \<open>The state a method ends in, whether it returns or raises.\<close>

definition state_of :: "error \<times> state + state \<Rightarrow> state" where
  "state_of r = (case r of Inl es \<Rightarrow> snd es | Inr s \<Rightarrow> s)"

text \<open>
  What a row says about the entity it was written for: the cell of the \<^verbatim>\<open>id\<close> and the
  cells of the free-text fields are the sanitization of the entity's field. The other
  cells of the row are not described.
\<close>

definition equipment_cells :: "Equipment \<Rightarrow> string list \<Rightarrow> bool" where
  "equipment_cells equip r =
     (length r = 9
      \<and> r ! 0 = sanitize_csv_field (PInt (equip_id equip))
      \<and> r ! 1 = sanitize_csv_field (equip_name equip)
      \<and> r ! 7 = sanitize_csv_field (equip_description equip)
      \<and> r ! 8 = sanitize_csv_field (equip_speciality equip))"

definition ship_cells :: "Ship \<Rightarrow> string list \<Rightarrow> bool" where
  "ship_cells ship r =
     (length r = 18
      \<and> r ! 0 = sanitize_csv_field (PInt (ship_id ship))
      \<and> r ! 1 = sanitize_csv_field (ship_name ship)
      \<and> r ! 2 = sanitize_csv_field (ship_english_name ship))"

definition weapon_cells :: "Weapon \<Rightarrow> string list \<Rightarrow> bool" where
  "weapon_cells weapon r =
     (length r = 7
      \<and> r ! 0 = sanitize_csv_field (PInt (weapon_id weapon))
      \<and> r ! 1 = sanitize_csv_field (name_or_placeholder weapon))"

text \<open>
  A file written for a collection: empty, or the header row followed by rows that each
  describe an entity of the collection.
\<close>

definition rows_from ::
  "('a \<Rightarrow> string list \<Rightarrow> bool) \<Rightarrow> 'a list \<Rightarrow> string list \<Rightarrow> content option \<Rightarrow> bool" where
  "rows_from cells collection fieldnames file =
     (case file of
        Some (Csv rows) \<Rightarrow>
          (rows = [] \<or> hd rows = fieldnames)
          \<and> list_all (\<lambda>r. list_ex (\<lambda>x. cells x r) collection) (tl rows)
      | _ \<Rightarrow> False)"

text \<open>
  Notions for comparing runs. \<open>overlay g t\<close> is the state \<open>t\<close> in an output directory
  that held \<open>g\<close> before the files of \<open>t\<close> were written. A method is \<open>framed\<close> when
  running it in an output directory that holds \<open>g\<close> is running it in an empty one and
  laying the result over \<open>g\<close>: it never reads the directory, and what it writes does
  not depend on what was there.
\<close>

definition lift_state :: "(state \<Rightarrow> state) \<Rightarrow> error \<times> state + state \<Rightarrow> error \<times> state + state" where
  "lift_state h r = (case r of Inl es \<Rightarrow> Inl (fst es, h (snd es)) | Inr s \<Rightarrow> Inr (h s))"

definition overlay :: "(string \<Rightarrow> content option) \<Rightarrow> state \<Rightarrow> state" where
  "overlay g t = t\<lparr>out_files := g ++ out_files t\<rparr>"

definition framed :: "(state \<Rightarrow> error \<times> state + state) \<Rightarrow> bool" where
  "framed f =
     (\<forall>s g. f (s\<lparr>out_files := g\<rparr>) = lift_state (overlay g) (f (s\<lparr>out_files := Map.empty\<rparr>)))"

definition output_names :: "string list" where
  "output_names =
     [''equipment.csv'', ''ships.csv'', ''weapons.csv'', ''equipment_by_type.json'',
      ''ships_by_type.json'', ''summary.json'']"

section \<open>Example inputs\<close>

definition weapon7 :: Weapon where
  "weapon7 = \<lparr> weapon_id = 7, weapon_name = PStr [], weapon_damage = PInt 4,
       weapon_reload_max = PInt 0, weapon_bullet_id = PInt 0, weapon_barrage_id = PInt 0,
       weapon_spawn_bound = PStr [], weapon_fire_fx = PStr [], weapon_type = PInt 0,
       weapon_range = PInt 0, weapon_angle = PInt 0, weapon_min_range = PInt 0,
       weapon_aim_type = PInt 0 \<rparr>"
definition progress_twice :: pyval where
  "progress_twice = PDict [(''basic'', PList [PStr ''a'', PStr ''a''])]"

definition progress_once :: pyval where
  "progress_once = PDict [(''basic'', PList [PStr ''a'', PStr ''b''])]"

definition short_ship :: "(string \<times> pyval) list" where
  "short_ship = [(''attrs'', PList [PInt 5000, PInt 100])]"

definition growth_a :: "(string \<times> pyval) list" where
  "growth_a = [(''attrs_growth'',
     PList [PInt 1, PInt 2, PInt 3, PInt 4, PInt 5, PInt 6, PInt 7, PInt 8, PInt 9,
            PInt 0, PInt 0, PInt 12])]"

definition growth_b :: "(string \<times> pyval) list" where
  "growth_b = [(''attrs_growth'',
     PList [PInt 1, PInt 2, PInt 3, PInt 4, PInt 5, PInt 6, PInt 7, PInt 8, PInt 9,
            PInt 70, PInt 90, PInt 12])]"

definition default_equipment :: Equipment where
  "default_equipment =
     \<lparr> equip_id = 1, equip_name = PStr ''Unknown'', equip_type = PInt 0,
       equip_type_name = ''Unknown'', equip_rarity = PInt 1, equip_nationality = PInt 0,
       equip_tech = PInt 0, equip_damage = PList [], equip_reload = PList [],
       equip_armor_modifiers = PList [], equip_ammo_type = PInt 0,
       equip_weapon_ids = PList [], equip_parameters = PDict [],
       equip_property_rate = PList [], equip_value_2 = PInt 0, equip_value_3 = PInt 0,
       equip_description = PStr [], equip_speciality = PStr [], equip_part_main = PList [],
       equip_part_sub = PList [] \<rparr>"

definition default_ship :: Ship where
  "default_ship =
     \<lparr> ship_id = 1, ship_name = PStr ''Unknown'', ship_english_name = PStr [],
       ship_type = PInt 0, ship_type_name = ''Unknown'', ship_nationality = PInt 0,
       ship_rarity = PInt 1, ship_star = PInt 1, ship_armor_type = PInt 1,
       ship_hp = PInt 0, ship_firepower = PInt 0, ship_torpedo = PInt 0,
       ship_antiair = PInt 0, ship_aviation = PInt 0, ship_reload = PInt 0,
       ship_armor = PInt 0, ship_hit = PInt 0, ship_evasion = PInt 0, ship_speed = PInt 0,
       ship_luck = PInt 0, ship_antisub = PInt 0, ship_hp_growth = PInt 0,
       ship_firepower_growth = PInt 0, ship_torpedo_growth = PInt 0,
       ship_antiair_growth = PInt 0, ship_aviation_growth = PInt 0,
       ship_reload_growth = PInt 0, ship_armor_growth = PInt 0, ship_hit_growth = PInt 0,
       ship_evasion_growth = PInt 0, ship_antisub_growth = PInt 0,
       ship_equipment_proficiency = PList [], ship_base_list = PList [],
       ship_preload_count = PList [] \<rparr>"

definition template_table :: "(string \<times> pyval) list" where
  "template_table =
     [(''1'', PDict [(''name'', PStr ''B''), (''rarity'', PInt 5), (''damage'', PList [PInt 9])])]"

definition curves_table :: "(string \<times> pyval) list" where
  "curves_table = [(''2'', PDict [(''reload'', PList [PInt 3, PInt 2])])]"

definition empty_state :: state where
  "empty_state = new_parser no_files True any_file Map.empty"

definition locked_state :: state where
  "locked_state = new_parser no_files False any_file Map.empty"

definition formula_tech_files :: "string \<Rightarrow> file_state" where
  "formula_tech_files name =
     (if name = ''equip_data_statistics.json''
      then Document (PDict [(''1'', PDict [(''name'', PStr ''A''), (''tech'', PStr ''=1+1'')])])
      else Missing)"

definition formula_tech_parser :: state where
  "formula_tech_parser = new_parser formula_tech_files True any_file Map.empty"

definition stale_files :: "string \<Rightarrow> content option" where
  "stale_files = [''summary.json'' \<mapsto> Csv [[''old'']], ''notes.txt'' \<mapsto> Csv []]"

section \<open>Basic facts\<close>

lemma and_then_Inr [simp]: "and_then (Inr x) f = f x"
  by (simp add: and_then_def)

lemma and_then_Inl [simp]: "and_then (Inl e) f = Inl e"
  by (simp add: and_then_def)

lemma and_next_Inr [simp]: "and_next (Inr s) f = f s"
  by (simp add: and_next_def)

lemma and_next_Inl [simp]: "and_next (Inl es) f = Inl es"
  by (simp add: and_next_def)

lemma set_insort_by [simp]: "set (insort_by lt key x ys) = insert x (set ys)"
  by (induction ys) auto

lemma set_foldr_insort_by: "set (foldr (insort_by lt key) xs []) = set xs"
  by (induction xs) auto

lemma sorted_by_set: "sorted_by lt key xs = Inr ys \<Longrightarrow> set ys = set xs"
  by (auto simp: sorted_by_def set_foldr_insort_by split: if_splits)

lemma comparable_int_lt [simp]: "comparable int_lt ks"
  by (induction ks) (auto simp: int_lt_def list_all_iff)

lemma sorted_by_int_lt: "sorted_by int_lt key xs = Inr (foldr (insort_by int_lt key) xs [])"
  by (simp add: sorted_by_def)

lemma write_rows_sound:
  "write_rows row xs written = (eo, rows) \<Longrightarrow>
     \<exists>new. rows = written @ new \<and> (\<forall>r\<in>set new. \<exists>x\<in>set xs. row x = Inr r)"
proof (induction xs arbitrary: written)
  case Nil
  then show ?case by simp
next
  case (Cons x xs)
  show ?case
  proof (cases "row x")
    case (Inl e)
    with Cons.prems show ?thesis by simp
  next
    case (Inr r)
    with Cons.prems have "write_rows row xs (written @ [r]) = (eo, rows)" by simp
    from Cons.IH [OF this] obtain new where
      new: "rows = (written @ [r]) @ new" "\<forall>r'\<in>set new. \<exists>x\<in>set xs. row x = Inr r'" by blast
    have "rows = written @ (r # new)" using new(1) by simp
    moreover have "\<forall>r'\<in>set (r # new). \<exists>x'\<in>set (x # xs). row x' = Inr r'"
      using new(2) Inr by auto
    ultimately show ?thesis by blast
  qed
qed

lemma write_rows_all:
  "\<forall>x\<in>set xs. row x = Inr (f x) \<Longrightarrow> write_rows row xs written = (None, written @ map f xs)"
  by (induction xs arbitrary: written) auto

lemma dec_nonempty: "dec n \<noteq> []"
  by (subst dec.simps) simp

lemma str_int_nonempty: "str_int i \<noteq> []"
  by (simp add: str_int_def dec_nonempty)

lemma repr_nonempty: "repr v \<noteq> []"
  by (cases v) (auto simp: str_int_nonempty repr_str_def Let_def)

lemma sanitize_truthy_nonempty: "truthy v \<Longrightarrow> sanitize_csv_field v \<noteq> []"
  by (cases v) (auto simp: sanitize_csv_field_def str_def repr_nonempty str_int_nonempty split: list.splits)

lemma sanitize_placeholder:
  "sanitize_csv_field (PStr (''Weapon_'' @ t)) = ''Weapon_'' @ t"
  by (simp add: sanitize_csv_field_def str_def formula_chars_def)

lemma name_cell_nonempty: "sanitize_csv_field (name_or_placeholder w) \<noteq> []"
  by (simp add: name_or_placeholder_def sanitize_truthy_nonempty sanitize_placeholder)

section \<open>The weapons file\<close>

lemma weapon_row_cells:
  "weapon_row w = Inr
     [cell_text (PInt (weapon_id w)), sanitize_csv_field (name_or_placeholder w),
      cell_text (weapon_damage w), cell_text (weapon_reload_max w), cell_text (weapon_range w),
      cell_text (weapon_angle w), cell_text (weapon_type w)]"
  by (simp add: weapon_row_def)

lemma make_weapon_name:
  "make_weapon names key data = Inr w \<Longrightarrow> weapon_name w = dict_get names (weapon_id w) (PStr [])"
  by (cases "py_int key"; cases data) (auto simp: make_weapon_def)

lemma export_weapons_csv_rows:
  assumes "can_open s ''weapons.csv''"
  shows "\<exists>rows. export_weapons_csv s = Inr (put_file ''weapons.csv'' (Csv rows) s)
           \<and> (rows = [] \<or> rows = weapon_fieldnames # tl rows)
           \<and> set (tl rows) = (\<lambda>w. projr (weapon_row w)) ` set (dict_values (weapons s))"
proof (cases "dict_values (weapons s) = []")
  case True
  then show ?thesis using assms
    by (intro exI [of _ "[]"]) (simp add: export_weapons_csv_def write_csv_def)
next
  case False
  let ?xs = "foldr (insort_by int_lt weapon_id) (dict_values (weapons s)) []"
  have w: "write_rows weapon_row ?xs [weapon_fieldnames]
             = (None, [weapon_fieldnames] @ map (\<lambda>w. projr (weapon_row w)) ?xs)"
    by (rule write_rows_all) (simp add: weapon_row_def)
  show ?thesis using assms False w
    by (intro exI [of _ "weapon_fieldnames # map (\<lambda>w. projr (weapon_row w)) ?xs"])
      (simp add: export_weapons_csv_def write_csv_def sorted_by_int_lt set_foldr_insort_by)
qed

text \<open>
  C10. In \<^verbatim>\<open>weapons.csv\<close> the name cell of every row is not empty. A weapon whose
  name is the empty string is written with the placeholder \<^verbatim>\<open>Weapon_\<close> followed by
  its integer id, and the name of a weapon whose id is not in the table of weapon names
  is the empty string. The block writes the file whenever the file can be opened.
\<close>

theorem weapon_name_cell_nonempty:
  assumes "can_open s ''weapons.csv''"
  shows "\<exists>s' rows. export_weapons_csv s = Inr s'
           \<and> out_files s' ''weapons.csv'' = Some (Csv rows)
           \<and> (\<forall>r\<in>set rows. length r = 7 \<and> r ! 1 \<noteq> [])
           \<and> (\<forall>w\<in>set (dict_values (weapons s)). weapon_name w = PStr [] \<longrightarrow>
                 (\<exists>r\<in>set rows. r ! 0 = str_int (weapon_id w)
                    \<and> r ! 1 = ''Weapon_'' @ str_int (weapon_id w)))
           \<and> (\<forall>names key data w. make_weapon names key data = Inr w
                 \<longrightarrow> map_of names (weapon_id w) = None \<longrightarrow> weapon_name w = PStr [])"
proof -
  from export_weapons_csv_rows [OF assms] obtain rows where
    ex: "export_weapons_csv s = Inr (put_file ''weapons.csv'' (Csv rows) s)"
    and hd: "rows = [] \<or> rows = weapon_fieldnames # tl rows"
    and tl: "set (tl rows) = (\<lambda>w. projr (weapon_row w)) ` set (dict_values (weapons s))"
    by blast
  have written: "out_files (put_file ''weapons.csv'' (Csv rows) s) ''weapons.csv'' = Some (Csv rows)"
    by (simp add: put_file_def)
  have cells: "length r = 7 \<and> r ! 1 \<noteq> []" if "r \<in> set rows" for r
  proof -
    from that hd have "r = weapon_fieldnames \<or> r \<in> set (tl rows)"
      by (cases rows) auto
    then show ?thesis
    proof
      assume "r = weapon_fieldnames"
      then show ?thesis by (simp add: weapon_fieldnames_def)
    next
      assume "r \<in> set (tl rows)"
      with tl obtain w where "r = projr (weapon_row w)" by auto
      then show ?thesis by (simp add: weapon_row_cells name_cell_nonempty)
    qed
  qed
  have placeholder: "\<exists>r\<in>set rows. r ! 0 = str_int (weapon_id w)
      \<and> r ! 1 = ''Weapon_'' @ str_int (weapon_id w)"
    if "w \<in> set (dict_values (weapons s))" and "weapon_name w = PStr []" for w
  proof -
    have "projr (weapon_row w) \<in> set (tl rows)" using that(1) tl by blast
    then have "projr (weapon_row w) \<in> set rows" by (metis list.set_sel(2) tl_Nil)
    moreover have "projr (weapon_row w) ! 0 = str_int (weapon_id w)"
      by (simp add: weapon_row_cells cell_text_def str_def)
    moreover have "projr (weapon_row w) ! 1 = ''Weapon_'' @ str_int (weapon_id w)"
      using that(2) sanitize_placeholder [of "str_int (weapon_id w)"]
      by (simp add: weapon_row_cells name_or_placeholder_def)
    ultimately show ?thesis by blast
  qed
  have missing: "weapon_name w = PStr []"
    if "make_weapon names key data = Inr w" and "map_of names (weapon_id w) = None"
    for names key data w
    using that make_weapon_name [of names key data w] by (simp add: dict_get_def)
  show ?thesis
  proof (intro exI conjI)
    show "export_weapons_csv s = Inr (put_file ''weapons.csv'' (Csv rows) s)" by (rule ex)
    show "out_files (put_file ''weapons.csv'' (Csv rows) s) ''weapons.csv'' = Some (Csv rows)"
      by (rule written)
    show "\<forall>r\<in>set rows. length r = 7 \<and> r ! 1 \<noteq> []" using cells by blast
    show "\<forall>w\<in>set (dict_values (weapons s)). weapon_name w = PStr [] \<longrightarrow>
            (\<exists>r\<in>set rows. r ! 0 = str_int (weapon_id w)
               \<and> r ! 1 = ''Weapon_'' @ str_int (weapon_id w))"
      using placeholder by blast
    show "\<forall>names key data w. make_weapon names key data = Inr w
            \<longrightarrow> map_of names (weapon_id w) = None \<longrightarrow> weapon_name w = PStr []"
      using missing by blast
  qed
qed

theorem weapon_name_cell_nonempty_witness:
  "can_open ((new_parser no_files True any_file Map.empty)\<lparr>weapons := [(7, weapon7)]\<rparr>) ''weapons.csv''
   \<and> (case export_weapons_csv ((new_parser no_files True any_file Map.empty)\<lparr>weapons := [(7, weapon7)]\<rparr>) of
        Inl _ \<Rightarrow> False
      | Inr s' \<Rightarrow> out_files s' ''weapons.csv'' =
          Some (Csv [[''id'', ''name'', ''damage'', ''reload_max'', ''range'', ''angle'', ''type''],
                     [''7'', ''Weapon_7'', ''4'', ''0'', ''0'', ''0'', ''0'']]))"
proof -
  let ?s = "(new_parser no_files True any_file Map.empty)\<lparr>weapons := [(7, weapon7)]\<rparr>"
  have h: "can_open ?s ''weapons.csv''"
    by (simp add: new_parser_def any_file_def)
  note fact = weapon_name_cell_nonempty [OF h]
  have c: "case export_weapons_csv ?s of
        Inl _ \<Rightarrow> False
      | Inr s' \<Rightarrow> out_files s' ''weapons.csv'' =
          Some (Csv [[''id'', ''name'', ''damage'', ''reload_max'', ''range'', ''angle'', ''type''],
                     [''7'', ''Weapon_7'', ''4'', ''0'', ''0'', ''0'', ''0'']])"
    by code_simp
  from fact h c show ?thesis by blast
qed

section \<open>The progress file: one bucket for each name\<close>

lemma map_of_setitem: "map_of (setitem d k v) k' = (if k' = k then Some v else map_of d k')"
  by (induction d) auto

lemma dict_get_setitem:
  "dict_get (setitem d k v) k' dflt = (if k' = k then v else dict_get d k' dflt)"
  by (simp add: dict_get_def map_of_setitem)

lemma map_of_ensure_keys:
  "map_of (ensure_keys rk d) k = (case map_of d k of Some v \<Rightarrow> Some v | None \<Rightarrow> map_of rk k)"
proof (induction rk arbitrary: d)
  case Nil
  then show ?case by (simp split: option.splits)
next
  case (Cons kd rest)
  show ?case
    by (cases kd) (auto simp: Cons.IH map_of_setitem split: option.splits)
qed

lemma map_of_remove_everywhere:
  "distinct bs \<Longrightarrow>
   map_of (remove_everywhere item_name bs d) b =
     (if b \<in> set bs then Some (remove_from item_name (dict_get d b (PList []))) else map_of d b)"
proof (induction bs arbitrary: d)
  case Nil
  then show ?case by simp
next
  case (Cons b0 rest)
  then show ?case
    by (auto simp: map_of_setitem dict_get_setitem)
qed

lemma remove_from_PList: "remove_from item_name (PList xs) = PList (remove1 (PStr item_name) xs)"
  by (simp add: remove_from_def remove1_idem)

lemma distinct_buckets: "distinct buckets"
  by (simp add: buckets_def)

lemma required_bucket: "b \<in> set buckets \<Longrightarrow> map_of required_keys b = Some (PList [])"
  by (auto simp: buckets_def required_keys_def)

lemma bucket_items_PDict: "bucket_items (PDict d) b = items_of (map_of d b)"
  by (simp add: bucket_items_def)

lemma items_of_remove_from:
  "items_of (Some (remove_from item_name v)) = remove1 (PStr item_name) (items_of (Some v))"
  by (cases v) (simp_all add: remove_from_def items_of_def remove1_idem)

lemma items_of_PList: "items_of (Some (PList xs)) = xs"
  by (simp add: items_of_def)

lemma list_part_items_of:
  "map_of d k = Some v \<Longrightarrow>
   (case dict_get d k (PList []) of PList xs \<Rightarrow> xs | _ \<Rightarrow> []) = items_of (Some v)"
  by (cases v) (simp_all add: dict_get_def items_of_def)

lemma bucket_items_update:
  assumes "update_progress writable now f item_name status = Inr f'"
    and "utils_load_json f = Inr raw"
    and "b \<in> set buckets"
  shows "\<exists>doc. f' = Document doc \<and>
           bucket_items doc b =
             remove1 (PStr item_name) (bucket_items raw b) @ (if b = status then [PStr item_name] else [])"
proof -
  define p0 where "p0 = (case raw of PDict d \<Rightarrow> d | _ \<Rightarrow> [])"
  define p1 where "p1 = ensure_keys required_keys p0"
  define p2 where "p2 = remove_everywhere item_name buckets p1"
  define p3 where "p3 = add_to item_name status p2"
  define p4 where "p4 = setitem p3 ''last_updated'' (PStr now)"
  have f': "f' = Document (PDict p4)"
    using assms(1,2)
    by (auto simp: update_progress_def Let_def p0_def p1_def p2_def p3_def p4_def
        split: if_splits)
  have raw: "bucket_items raw b = items_of (map_of p0 b)"
    by (cases raw) (simp_all add: bucket_items_def items_of_def p0_def)
  have m1: "map_of p1 b = Some (case map_of p0 b of Some v \<Rightarrow> v | None \<Rightarrow> PList [])"
    using assms(3) by (simp add: p1_def map_of_ensure_keys required_bucket split: option.splits)
  have i1: "items_of (map_of p1 b) = items_of (map_of p0 b)"
    by (simp add: m1 items_of_def split: option.splits)
  have m2: "map_of p2 b = Some (remove_from item_name (dict_get p1 b (PList [])))"
    using assms(3) by (simp add: p2_def map_of_remove_everywhere distinct_buckets)
  have i2: "items_of (map_of p2 b) = remove1 (PStr item_name) (items_of (map_of p0 b))"
    using i1 by (simp add: m2 items_of_remove_from dict_get_def m1)
  have i3: "items_of (map_of p3 b) =
      remove1 (PStr item_name) (items_of (map_of p0 b)) @ (if b = status then [PStr item_name] else [])"
  proof (cases "b = status")
    case True
    have t: "(case dict_get p2 b (PList []) of PList xs \<Rightarrow> xs | _ \<Rightarrow> []) = items_of (map_of p2 b)"
      by (simp only: m2 list_part_items_of [OF m2])
    from True assms(3) have "status \<in> set buckets" by simp
    then have "items_of (map_of p3 b) = items_of (map_of p2 b) @ [PStr item_name]"
      using True t by (simp add: p3_def add_to_def map_of_setitem items_of_PList)
    then show ?thesis using True i2 by simp
  next
    case False
    then show ?thesis using i2
      by (simp add: p3_def add_to_def map_of_setitem)
  qed
  have "b \<noteq> ''last_updated''" using assms(3) by (auto simp: buckets_def)
  then have "map_of p4 b = map_of p3 b" by (simp add: p4_def map_of_setitem)
  then show ?thesis using f' i3 raw by (simp add: bucket_items_PDict)
qed

lemma count_list_remove1:
  "count_list (remove1 x xs) y = (if x = y then count_list xs y - 1 else count_list xs y)"
  by (induction xs) auto

lemma filter_buckets_eq:
  "filter (\<lambda>b. b = status) buckets = (if status \<in> set buckets then [status] else [])"
  by (auto simp: buckets_def)

lemma at_most_once_no_file: "utils_load_json Missing = Inr raw \<Longrightarrow> at_most_once raw other"
  by (auto simp: utils_load_json_def at_most_once_def bucket_items_def list_all_iff)

text \<open>
  C8, as the code has it. When the item name occurs at most once in each bucket of the
  progress file, as in every file this operation has written starting from no file or
  from a file without repeated names, the file written by \<^verbatim>\<open>update_progress\<close> holds the
  name in at most one of the four buckets: in the bucket named by the status, or in none
  when the status names no bucket. Names that occurred at most once in each bucket still
  do. A bucket that is not a list holds no name. (\<^verbatim>\<open>list.remove\<close> takes out one
  occurrence only, so for a file with a name twice in a bucket the claim fails.)
\<close>

theorem update_progress_exclusive:
  assumes "update_progress writable now f item_name status = Inr f'"
    and "utils_load_json f = Inr raw"
    and "at_most_once raw item_name"
  shows "\<exists>doc. f' = Document doc
           \<and> holding doc item_name = (if status \<in> set buckets then [status] else [])
           \<and> length (holding doc item_name) \<le> 1
           \<and> (\<forall>other. at_most_once raw other \<longrightarrow> at_most_once doc other)"
proof -
  from bucket_items_update [OF assms(1,2), of "''basic''"] obtain doc where doc: "f' = Document doc"
    by (auto simp: buckets_def)
  have items: "bucket_items doc b =
      remove1 (PStr item_name) (bucket_items raw b) @ (if b = status then [PStr item_name] else [])"
    if "b \<in> set buckets" for b
    using bucket_items_update [OF assms(1,2) that] doc by auto
  have once: "count_list (bucket_items raw b) (PStr item_name) \<le> 1" if "b \<in> set buckets" for b
    using assms(3) that by (simp add: at_most_once_def list_all_iff)
  have gone: "PStr item_name \<notin> set (remove1 (PStr item_name) (bucket_items raw b))"
    if "b \<in> set buckets" for b
  proof -
    have "count_list (remove1 (PStr item_name) (bucket_items raw b)) (PStr item_name) = 0"
      using once [OF that] unfolding count_list_remove1 by simp
    then show ?thesis unfolding count_list_0_iff .
  qed
  have "holding doc item_name = filter (\<lambda>b. b = status) buckets"
    unfolding holding_def
    by (rule filter_cong [OF refl]) (simp add: items gone)
  then have h: "holding doc item_name = (if status \<in> set buckets then [status] else [])"
    by (simp add: filter_buckets_eq)
  have keep: "at_most_once doc other" if "at_most_once raw other" for other
    unfolding at_most_once_def list_all_iff
  proof
    fix b assume b: "b \<in> set buckets"
    have c: "count_list (bucket_items raw b) (PStr other) \<le> 1"
      using that b by (simp add: at_most_once_def list_all_iff)
    show "count_list (bucket_items doc b) (PStr other) \<le> 1"
      using c by (auto simp: items [OF b] count_list_remove1)
  qed
  show ?thesis using doc h keep by auto
qed

theorem update_progress_exclusive_witness:
  "update_progress True ''t'' (Document progress_once) ''a'' ''completed'' =
     Inr (Document (PDict
       [(''basic'', PList [PStr ''b'']), (''completed'', PList [PStr ''a'']),
        (''partial'', PList []), (''failed'', PList []), (''retry_queue'', PList []),
        (''last_updated'', PStr ''t'')]))
   \<and> utils_load_json (Document progress_once) = Inr progress_once
   \<and> at_most_once progress_once ''a''
   \<and> holding (PDict
       [(''basic'', PList [PStr ''b'']), (''completed'', PList [PStr ''a'']),
        (''partial'', PList []), (''failed'', PList []), (''retry_queue'', PList []),
        (''last_updated'', PStr ''t'')]) ''a'' = [''completed'']"
proof -
  let ?doc = "PDict
       [(''basic'', PList [PStr ''b'']), (''completed'', PList [PStr ''a'']),
        (''partial'', PList []), (''failed'', PList []), (''retry_queue'', PList []),
        (''last_updated'', PStr ''t'')]"
  have h1: "update_progress True ''t'' (Document progress_once) ''a'' ''completed'' =
      Inr (Document ?doc)"
    by code_simp
  have h2: "utils_load_json (Document progress_once) = Inr progress_once"
    by (simp add: utils_load_json_def)
  have h3: "at_most_once progress_once ''a''"
    by code_simp
  from update_progress_exclusive [OF h1 h2 h3]
  have "holding ?doc ''a'' = [''completed'']"
    by (simp add: buckets_def)
  with h1 h2 h3 show ?thesis by simp
qed

theorem update_progress_twice_counterexample:
  "update_progress True ''t'' (Document progress_twice) ''a'' ''completed'' =
     Inr (Document (PDict
       [(''basic'', PList [PStr ''a'']), (''completed'', PList [PStr ''a'']),
        (''partial'', PList []), (''failed'', PList []), (''retry_queue'', PList []),
        (''last_updated'', PStr ''t'')]))
   \<and> holding (PDict
       [(''basic'', PList [PStr ''a'']), (''completed'', PList [PStr ''a'']),
        (''partial'', PList []), (''failed'', PList []), (''retry_queue'', PList []),
        (''last_updated'', PStr ''t'')]) ''a'' = [''basic'', ''completed'']"
  by code_simp

section \<open>Constructing entities\<close>

lemma dict_get_absent: "map_of d k = None \<Longrightarrow> dict_get d k dflt = dflt"
  by (simp add: dict_get_def)

lemma item_or_zero_PList: "item_or_zero (PList xs) n = Inr (entry xs n)"
  by (simp add: item_or_zero_def entry_def)

lemma item_or_zero_indexable:
  "indexable v \<Longrightarrow> item_or_zero v n = Inr (projr (item_or_zero v n))"
  by (cases v) (simp_all add: indexable_def item_or_zero_def)

lemma indexable_zeros12: "indexable zeros12"
  by (simp add: indexable_def zeros12_def)

lemma entry_zeros: "entry (replicate 12 (PInt 0)) n = PInt 0"
  by (simp add: entry_def)

lemma entry_beyond: "length xs \<le> n \<Longrightarrow> entry xs n = PInt 0"
  by (simp add: entry_def)

lemma table_get_hashable:
  "hash_key v = Inr t \<Longrightarrow> \<exists>name. table_get table v dflt = Inr name"
  by (cases t) (simp_all add: table_get_def)

lemma hash_key_zero: "hash_key (PInt 0) = Inr (Some 0)"
  by (simp add: hash_key_def as_int_def)

lemma make_ship_indexable:
  assumes "py_int key = Some i"
    and "table_get SHIP_TYPES (dict_get d ''type'' (PInt 0)) ''Unknown'' = Inr tn"
    and "indexable (dict_get d ''attrs'' zeros12)"
    and "indexable (dict_get d ''attrs_growth'' zeros12)"
  shows "\<exists>ship. make_ship key (PDict d) = Inr ship
     \<and> ship_id ship = i
     \<and> ship_type_name ship = tn
     \<and> ship_name ship = dict_get d ''name'' (PStr ''Unknown'')
     \<and> ship_english_name ship = dict_get d ''english_name'' (PStr [])
     \<and> ship_type ship = dict_get d ''type'' (PInt 0)
     \<and> ship_nationality ship = dict_get d ''nationality'' (PInt 0)
     \<and> ship_rarity ship = dict_get d ''rarity'' (PInt 1)
     \<and> ship_star ship = dict_get d ''star'' (PInt 1)
     \<and> ship_armor_type ship = dict_get d ''armor_type'' (PInt 1)
     \<and> ship_equipment_proficiency ship = dict_get d ''equipment_proficiency'' (PList [])
     \<and> ship_base_list ship = dict_get d ''base_list'' (PList [])
     \<and> ship_preload_count ship = dict_get d ''preload_count'' (PList [])
     \<and> base_stats ship =
           map (\<lambda>n. projr (item_or_zero (dict_get d ''attrs'' zeros12) n)) positions
     \<and> growth_stats ship =
           map (\<lambda>n. if n = 9 \<or> n = 10 then None
                     else Some (projr (item_or_zero (dict_get d ''attrs_growth'' zeros12) n)))
             positions"
proof -
  define a where "a = (\<lambda>n. projr (item_or_zero (dict_get d ''attrs'' zeros12) n))"
  define g where "g = (\<lambda>n. projr (item_or_zero (dict_get d ''attrs_growth'' zeros12) n))"
  have a: "item_or_zero (dict_get d ''attrs'' zeros12) n = Inr (a n)" for n
    unfolding a_def by (rule item_or_zero_indexable [OF assms(3)])
  have g: "item_or_zero (dict_get d ''attrs_growth'' zeros12) n = Inr (g n)" for n
    unfolding g_def by (rule item_or_zero_indexable [OF assms(4)])
  have "\<exists>ship. make_ship key (PDict d) = Inr ship
     \<and> ship_id ship = i
     \<and> ship_type_name ship = tn
     \<and> ship_name ship = dict_get d ''name'' (PStr ''Unknown'')
     \<and> ship_english_name ship = dict_get d ''english_name'' (PStr [])
     \<and> ship_type ship = dict_get d ''type'' (PInt 0)
     \<and> ship_nationality ship = dict_get d ''nationality'' (PInt 0)
     \<and> ship_rarity ship = dict_get d ''rarity'' (PInt 1)
     \<and> ship_star ship = dict_get d ''star'' (PInt 1)
     \<and> ship_armor_type ship = dict_get d ''armor_type'' (PInt 1)
     \<and> ship_equipment_proficiency ship = dict_get d ''equipment_proficiency'' (PList [])
     \<and> ship_base_list ship = dict_get d ''base_list'' (PList [])
     \<and> ship_preload_count ship = dict_get d ''preload_count'' (PList [])
     \<and> base_stats ship = map a positions
     \<and> growth_stats ship = map (\<lambda>n. if n = 9 \<or> n = 10 then None else Some (g n)) positions"
    using assms(1,2)
    by (simp add: make_ship_def get_def a g base_stats_def growth_stats_def positions_def)
  then show ?thesis unfolding a_def g_def .
qed

lemma make_ship_lists:
  assumes "py_int key = Some i"
    and "table_get SHIP_TYPES (dict_get d ''type'' (PInt 0)) ''Unknown'' = Inr tn"
    and "dict_get d ''attrs'' zeros12 = PList xs"
    and "dict_get d ''attrs_growth'' zeros12 = PList gs"
  shows "\<exists>ship. make_ship key (PDict d) = Inr ship
     \<and> base_stats ship = map (entry xs) positions
     \<and> growth_stats ship = map (\<lambda>n. if n = 9 \<or> n = 10 then None else Some (entry gs n)) positions"
proof -
  have ix: "indexable (dict_get d ''attrs'' zeros12)" "indexable (dict_get d ''attrs_growth'' zeros12)"
    using assms(3,4) by (simp_all add: indexable_def)
  from make_ship_indexable [OF assms(1,2) ix] show ?thesis
    by (auto simp: assms(3,4) item_or_zero_PList)
qed

lemma make_equipment_fields:
  assumes "py_int key = Some i"
    and "table_get EQUIP_TYPES (dict_get d ''type'' (PInt 0)) ''Unknown'' = Inr tn"
  shows "make_equipment key (PDict d) = Inr
     \<lparr> equip_id = i,
       equip_name = dict_get d ''name'' (PStr ''Unknown''),
       equip_type = dict_get d ''type'' (PInt 0),
       equip_type_name = tn,
       equip_rarity = dict_get d ''rarity'' (PInt 1),
       equip_nationality = dict_get d ''nationality'' (PInt 0),
       equip_tech = dict_get d ''tech'' (PInt 0),
       equip_damage = PList [],
       equip_reload = PList [],
       equip_armor_modifiers = PList [],
       equip_ammo_type = dict_get d ''ammo'' (PInt 0),
       equip_weapon_ids = dict_get d ''weapon_id'' (PList []),
       equip_parameters = dict_get d ''equip_parameters'' (PDict []),
       equip_property_rate = dict_get d ''property_rate'' (PList []),
       equip_value_2 = dict_get d ''value_2'' (PInt 0),
       equip_value_3 = dict_get d ''value_3'' (PInt 0),
       equip_description = dict_get d ''descrip'' (PStr []),
       equip_speciality = dict_get d ''speciality'' (PStr []),
       equip_part_main = dict_get d ''part_main'' (PList []),
       equip_part_sub = dict_get d ''part_sub'' (PList []) \<rparr>"
  using assms by (simp add: make_equipment_def)

lemma make_equipment_no_curves:
  "make_equipment key data = Inr equip \<Longrightarrow>
     equip_damage equip = PList [] \<and> equip_reload equip = PList []
     \<and> equip_armor_modifiers equip = PList []"
  by (cases "py_int key"; cases data)
     (auto simp: make_equipment_def and_then_def split: sum.splits)

lemma positions_upt: "positions = [0..<12]"
  by code_simp

lemma nth_positions: "n < 12 \<Longrightarrow> positions ! n = n"
  by (simp add: positions_upt)

text \<open>
  C7. A ship record whose \<^verbatim>\<open>attrs\<close> and \<^verbatim>\<open>attrs_growth\<close> are lists of any length,
  shorter than 12 included, is constructed without an exception when its key is an
  integer literal and its type code can be hashed. Every base stat whose position lies
  beyond the end of \<^verbatim>\<open>attrs\<close> is 0, and so is every growth field whose position lies
  beyond the end of \<^verbatim>\<open>attrs_growth\<close>. With \<^verbatim>\<open>attrs = [5000, 100]\<close> the ship has
  \<^verbatim>\<open>hp = 5000\<close>, \<^verbatim>\<open>firepower = 100\<close> and every other stat 0.
\<close>

theorem short_stat_vectors:
  assumes "py_int key = Some i"
    and "table_get SHIP_TYPES (dict_get d ''type'' (PInt 0)) ''Unknown'' = Inr tn"
    and "dict_get d ''attrs'' zeros12 = PList xs"
    and "dict_get d ''attrs_growth'' zeros12 = PList gs"
  shows "\<exists>ship. make_ship key (PDict d) = Inr ship
     \<and> (\<forall>n<12. base_stats ship ! n = (if n < length xs then xs ! n else PInt 0))
     \<and> (\<forall>n<12. n \<noteq> 9 \<and> n \<noteq> 10 \<longrightarrow>
           growth_stats ship ! n = Some (if n < length gs then gs ! n else PInt 0))"
proof -
  from make_ship_lists [OF assms] obtain ship where
    ship: "make_ship key (PDict d) = Inr ship"
    and b: "base_stats ship = map (entry xs) positions"
    and g: "growth_stats ship =
        map (\<lambda>n. if n = 9 \<or> n = 10 then None else Some (entry gs n)) positions"
    by blast
  have len: "length positions = 12" by (simp add: positions_def)
  have "base_stats ship ! n = (if n < length xs then xs ! n else PInt 0)" if "n < 12" for n
    using that by (simp add: b len nth_positions entry_def)
  moreover have "growth_stats ship ! n = Some (if n < length gs then gs ! n else PInt 0)"
    if "n < 12" "n \<noteq> 9 \<and> n \<noteq> 10" for n
    using that by (simp add: g len nth_positions entry_def)
  ultimately show ?thesis using ship by blast
qed

theorem short_stat_vectors_witness:
  "py_int ''101'' = Some 101
   \<and> table_get SHIP_TYPES (dict_get short_ship ''type'' (PInt 0)) ''Unknown'' = Inr ''Unknown''
   \<and> dict_get short_ship ''attrs'' zeros12 = PList [PInt 5000, PInt 100]
   \<and> dict_get short_ship ''attrs_growth'' zeros12 = PList (replicate 12 (PInt 0))
   \<and> make_ship ''101'' (PDict short_ship) =
       Inr (default_ship\<lparr>ship_id := 101, ship_hp := PInt 5000, ship_firepower := PInt 100\<rparr>)
   \<and> base_stats (default_ship\<lparr>ship_id := 101, ship_hp := PInt 5000, ship_firepower := PInt 100\<rparr>) ! 2
       = PInt 0"
proof -
  let ?ship = "default_ship\<lparr>ship_id := 101, ship_hp := PInt 5000, ship_firepower := PInt 100\<rparr>"
  have h1: "py_int ''101'' = Some 101" by code_simp
  have h2: "table_get SHIP_TYPES (dict_get short_ship ''type'' (PInt 0)) ''Unknown'' = Inr ''Unknown''"
    by code_simp
  have h3: "dict_get short_ship ''attrs'' zeros12 = PList [PInt 5000, PInt 100]"
    by code_simp
  have h4: "dict_get short_ship ''attrs_growth'' zeros12 = PList (replicate 12 (PInt 0))"
    by code_simp
  have m: "make_ship ''101'' (PDict short_ship) = Inr ?ship"
    by code_simp
  from short_stat_vectors [OF h1 h2 h3 h4] m
  have "base_stats ?ship ! 2 = PInt 0" by auto
  with h1 h2 h3 h4 m show ?thesis by blast
qed

lemma make_ship_explicit:
  assumes "py_int key = Some i"
    and "table_get SHIP_TYPES (dict_get d ''type'' (PInt 0)) ''Unknown'' = Inr tn"
    and "dict_get d ''attrs'' zeros12 = PList xs"
    and "dict_get d ''attrs_growth'' zeros12 = PList gs"
  shows "make_ship key (PDict d) = Inr
     \<lparr> ship_id = i,
       ship_name = dict_get d ''name'' (PStr ''Unknown''),
       ship_english_name = dict_get d ''english_name'' (PStr []),
       ship_type = dict_get d ''type'' (PInt 0),
       ship_type_name = tn,
       ship_nationality = dict_get d ''nationality'' (PInt 0),
       ship_rarity = dict_get d ''rarity'' (PInt 1),
       ship_star = dict_get d ''star'' (PInt 1),
       ship_armor_type = dict_get d ''armor_type'' (PInt 1),
       ship_hp = entry xs 0,
       ship_firepower = entry xs 1,
       ship_torpedo = entry xs 2,
       ship_antiair = entry xs 3,
       ship_aviation = entry xs 4,
       ship_reload = entry xs 5,
       ship_armor = entry xs 6,
       ship_hit = entry xs 7,
       ship_evasion = entry xs 8,
       ship_speed = entry xs 9,
       ship_luck = entry xs 10,
       ship_antisub = entry xs 11,
       ship_hp_growth = entry gs 0,
       ship_firepower_growth = entry gs 1,
       ship_torpedo_growth = entry gs 2,
       ship_antiair_growth = entry gs 3,
       ship_aviation_growth = entry gs 4,
       ship_reload_growth = entry gs 5,
       ship_armor_growth = entry gs 6,
       ship_hit_growth = entry gs 7,
       ship_evasion_growth = entry gs 8,
       ship_antisub_growth = entry gs 11,
       ship_equipment_proficiency = dict_get d ''equipment_proficiency'' (PList []),
       ship_base_list = dict_get d ''base_list'' (PList []),
       ship_preload_count = dict_get d ''preload_count'' (PList []) \<rparr>"
  using assms by (simp add: make_ship_def get_def item_or_zero_PList)

lemma entry_update_other:
  "n \<noteq> 9 \<Longrightarrow> n \<noteq> 10 \<Longrightarrow> entry (gs[9 := a, 10 := b]) n = entry gs n"
  by (simp add: entry_def)

text \<open>
  C5, as the code has it. A parsed ship keeps a growth value for ten of the twelve stat
  positions: for the positions 0 to 8 and 11 the growth field of the stat at base position
  \<open>n\<close> holds \<^verbatim>\<open>attrs_growth[n]\<close>, as the base stat holds \<^verbatim>\<open>attrs[n]\<close>. The growth
  values at the positions 9 (speed) and 10 (luck) are not kept: the class has no field
  for them and the ship is the same whatever they are.
\<close>

theorem growth_positions_kept:
  assumes "py_int key = Some i"
    and "table_get SHIP_TYPES (dict_get d ''type'' (PInt 0)) ''Unknown'' = Inr tn"
    and "dict_get d ''attrs'' zeros12 = PList xs"
    and "dict_get d ''attrs_growth'' zeros12 = PList gs"
  shows "\<exists>ship. make_ship key (PDict d) = Inr ship
     \<and> base_stats ship = map (entry xs) positions
     \<and> growth_stats ship =
           map (\<lambda>n. if n = 9 \<or> n = 10 then None else Some (entry gs n)) positions
     \<and> make_ship key (PDict (setitem d ''attrs_growth'' (PList (gs[9 := a, 10 := b])))) = Inr ship"
proof -
  let ?d = "setitem d ''attrs_growth'' (PList (gs[9 := a, 10 := b]))"
  have other: "dict_get ?d k dflt = dict_get d k dflt" if "k \<noteq> ''attrs_growth''" for k dflt
    using that by (simp add: dict_get_setitem)
  have t: "table_get SHIP_TYPES (dict_get ?d ''type'' (PInt 0)) ''Unknown'' = Inr tn"
    using assms(2) by (simp add: other)
  have x: "dict_get ?d ''attrs'' zeros12 = PList xs"
    using assms(3) by (simp add: other)
  have g: "dict_get ?d ''attrs_growth'' zeros12 = PList (gs[9 := a, 10 := b])"
    by (simp add: dict_get_setitem)
  have same: "make_ship key (PDict ?d) = make_ship key (PDict d)"
    unfolding make_ship_explicit [OF assms] make_ship_explicit [OF assms(1) t x g]
    by (simp add: other entry_update_other)
  from make_ship_lists [OF assms] same show ?thesis by auto
qed

theorem growth_positions_kept_witness:
  "py_int ''1'' = Some 1
   \<and> table_get SHIP_TYPES (dict_get growth_a ''type'' (PInt 0)) ''Unknown'' = Inr ''Unknown''
   \<and> dict_get growth_a ''attrs'' zeros12 = PList (replicate 12 (PInt 0))
   \<and> dict_get growth_a ''attrs_growth'' zeros12 =
       PList [PInt 1, PInt 2, PInt 3, PInt 4, PInt 5, PInt 6, PInt 7, PInt 8, PInt 9,
              PInt 0, PInt 0, PInt 12]
   \<and> map_sum id growth_stats (make_ship ''1'' (PDict growth_a)) =
       Inr [Some (PInt 1), Some (PInt 2), Some (PInt 3), Some (PInt 4), Some (PInt 5),
            Some (PInt 6), Some (PInt 7), Some (PInt 8), Some (PInt 9), None, None,
            Some (PInt 12)]"
proof -
  have h1: "py_int ''1'' = Some 1" by code_simp
  have h2: "table_get SHIP_TYPES (dict_get growth_a ''type'' (PInt 0)) ''Unknown'' = Inr ''Unknown''"
    by code_simp
  have h3: "dict_get growth_a ''attrs'' zeros12 = PList (replicate 12 (PInt 0))"
    by code_simp
  have h4: "dict_get growth_a ''attrs_growth'' zeros12 =
       PList [PInt 1, PInt 2, PInt 3, PInt 4, PInt 5, PInt 6, PInt 7, PInt 8, PInt 9,
              PInt 0, PInt 0, PInt 12]"
    by code_simp
  from growth_positions_kept [OF h1 h2 h3 h4, of "PInt 0" "PInt 0"]
  have "map_sum id growth_stats (make_ship ''1'' (PDict growth_a)) =
       Inr [Some (PInt 1), Some (PInt 2), Some (PInt 3), Some (PInt 4), Some (PInt 5),
            Some (PInt 6), Some (PInt 7), Some (PInt 8), Some (PInt 9), None, None,
            Some (PInt 12)]"
    by (auto simp: positions_def entry_def)
  with h1 h2 h3 h4 show ?thesis by blast
qed

theorem growth_speed_luck_counterexample:
  "make_ship ''1'' (PDict growth_a) = make_ship ''1'' (PDict growth_b)
   \<and> map_sum id ship_evasion_growth (make_ship ''1'' (PDict growth_b)) = Inr (PInt 9)
   \<and> map_sum id ship_antisub_growth (make_ship ''1'' (PDict growth_b)) = Inr (PInt 12)
   \<and> dict_get growth_a ''attrs_growth'' PNone \<noteq> dict_get growth_b ''attrs_growth'' PNone"
  by code_simp

lemma hashable_field:
  "map_of d ''type'' = None \<or> hash_key (dict_get d ''type'' (PInt 0)) \<noteq> Inl TypeError \<Longrightarrow>
     \<exists>name. table_get table (dict_get d ''type'' (PInt 0)) dflt = Inr name"
proof -
  assume a: "map_of d ''type'' = None \<or> hash_key (dict_get d ''type'' (PInt 0)) \<noteq> Inl TypeError"
  have "hash_key (dict_get d ''type'' (PInt 0)) \<noteq> Inl TypeError"
    using a by (auto simp: dict_get_absent hash_key_zero)
  then obtain t where "hash_key (dict_get d ''type'' (PInt 0)) = Inr t"
    by (cases "dict_get d ''type'' (PInt 0)") (auto simp: hash_key_def)
  then show ?thesis by (rule table_get_hashable)
qed

lemma indexable_field:
  "map_of d k = None \<or> indexable (dict_get d k zeros12) \<Longrightarrow> indexable (dict_get d k zeros12)"
  by (auto simp: dict_get_absent indexable_zeros12)

text \<open>
  C3, as the code has it. A field that is absent from the record takes the default of its
  \<^verbatim>\<open>data.get\<close>: 0 for the numeric codes except \<^verbatim>\<open>rarity\<close>, \<^verbatim>\<open>star\<close> and
  \<^verbatim>\<open>armor_type\<close>, whose default is 1; the empty list for the sequence fields and the
  empty dictionary for \<^verbatim>\<open>equip_parameters\<close>; \<^verbatim>\<open>Unknown\<close> for the name and the empty
  string for the other texts; twelve zeros for \<^verbatim>\<open>attrs\<close> and \<^verbatim>\<open>attrs_growth\<close>, so
  that every stat and growth field is 0. Construction does not fail because a field is
  absent: with an integer key it succeeds when each of \<^verbatim>\<open>type\<close>, \<^verbatim>\<open>attrs\<close> and
  \<^verbatim>\<open>attrs_growth\<close> is absent or well formed.
\<close>

theorem absent_fields_take_defaults:
  assumes "py_int key = Some i"
    and "map_of de ''type'' = None \<or> hash_key (dict_get de ''type'' (PInt 0)) \<noteq> Inl TypeError"
    and "map_of ds ''type'' = None \<or> hash_key (dict_get ds ''type'' (PInt 0)) \<noteq> Inl TypeError"
    and "map_of ds ''attrs'' = None \<or> indexable (dict_get ds ''attrs'' zeros12)"
    and "map_of ds ''attrs_growth'' = None \<or> indexable (dict_get ds ''attrs_growth'' zeros12)"
  shows "\<exists>equip ship.
       make_equipment key (PDict de) = Inr equip
     \<and> make_ship key (PDict ds) = Inr ship
     \<and> defaults_hold de equip equipment_defaults
     \<and> defaults_hold ds ship ship_defaults
     \<and> (map_of ds ''attrs'' = None \<longrightarrow> base_stats ship = replicate 12 (PInt 0))
     \<and> (map_of ds ''attrs_growth'' = None \<longrightarrow>
           growth_stats ship = map (\<lambda>n. if n = 9 \<or> n = 10 then None else Some (PInt 0)) positions)"
proof -
  from hashable_field [OF assms(2), where table = EQUIP_TYPES and dflt = "''Unknown''"] obtain tn where
    tn: "table_get EQUIP_TYPES (dict_get de ''type'' (PInt 0)) ''Unknown'' = Inr tn" by blast
  from hashable_field [OF assms(3), where table = SHIP_TYPES and dflt = "''Unknown''"] obtain tn' where
    tn': "table_get SHIP_TYPES (dict_get ds ''type'' (PInt 0)) ''Unknown'' = Inr tn'" by blast
  note equip = make_equipment_fields [OF assms(1) tn]
  from make_ship_indexable [OF assms(1) tn' indexable_field [OF assms(4)] indexable_field [OF assms(5)]]
  obtain ship where ship: "make_ship key (PDict ds) = Inr ship"
    and fields: "ship_name ship = dict_get ds ''name'' (PStr ''Unknown'')"
      "ship_english_name ship = dict_get ds ''english_name'' (PStr [])"
      "ship_type ship = dict_get ds ''type'' (PInt 0)"
      "ship_nationality ship = dict_get ds ''nationality'' (PInt 0)"
      "ship_rarity ship = dict_get ds ''rarity'' (PInt 1)"
      "ship_star ship = dict_get ds ''star'' (PInt 1)"
      "ship_armor_type ship = dict_get ds ''armor_type'' (PInt 1)"
      "ship_equipment_proficiency ship = dict_get ds ''equipment_proficiency'' (PList [])"
      "ship_base_list ship = dict_get ds ''base_list'' (PList [])"
      "ship_preload_count ship = dict_get ds ''preload_count'' (PList [])"
    and b: "base_stats ship =
        map (\<lambda>n. projr (item_or_zero (dict_get ds ''attrs'' zeros12) n)) positions"
    and g: "growth_stats ship =
        map (\<lambda>n. if n = 9 \<or> n = 10 then None
                  else Some (projr (item_or_zero (dict_get ds ''attrs_growth'' zeros12) n)))
          positions"
    by blast
  have e_defaults: "defaults_hold de
      (projr (make_equipment key (PDict de))) equipment_defaults"
    unfolding equip by (simp add: defaults_hold_def equipment_defaults_def dict_get_def)
  have s_defaults: "defaults_hold ds ship ship_defaults"
    by (simp add: defaults_hold_def ship_defaults_def fields dict_get_def)
  have zero: "projr (item_or_zero zeros12 n) = PInt 0" for n
    by (simp add: zeros12_def item_or_zero_PList entry_zeros)
  have bz: "base_stats ship = replicate 12 (PInt 0)" if "map_of ds ''attrs'' = None"
    using that by (simp add: b dict_get_absent zero positions_def eval_nat_numeral)
  have gz: "growth_stats ship = map (\<lambda>n. if n = 9 \<or> n = 10 then None else Some (PInt 0)) positions"
    if "map_of ds ''attrs_growth'' = None"
    using that by (simp add: g dict_get_absent zero)
  show ?thesis
    using equip ship e_defaults s_defaults bz gz by auto
qed

theorem absent_fields_take_defaults_witness:
  "py_int ''1'' = Some 1
   \<and> map_of ([] :: (string \<times> pyval) list) ''type'' = None
   \<and> map_of ([] :: (string \<times> pyval) list) ''attrs'' = None
   \<and> map_of ([] :: (string \<times> pyval) list) ''attrs_growth'' = None
   \<and> make_equipment ''1'' (PDict []) = Inr default_equipment
   \<and> make_ship ''1'' (PDict []) = Inr default_ship
   \<and> defaults_hold [] default_equipment equipment_defaults
   \<and> defaults_hold [] default_ship ship_defaults
   \<and> base_stats default_ship = replicate 12 (PInt 0)"
proof -
  have h1: "py_int ''1'' = Some 1" by code_simp
  have e: "make_equipment ''1'' (PDict []) = Inr default_equipment" by code_simp
  have s: "make_ship ''1'' (PDict []) = Inr default_ship" by code_simp
  from absent_fields_take_defaults [OF h1, of "[]" "[]"] e s
  have "defaults_hold [] default_equipment equipment_defaults
     \<and> defaults_hold [] default_ship ship_defaults
     \<and> base_stats default_ship = replicate 12 (PInt 0)"
    by auto
  with h1 e s show ?thesis by simp
qed

theorem rarity_default_counterexample:
  "make_equipment ''1'' (PDict []) = Inr default_equipment
   \<and> equip_rarity default_equipment = PInt 1
   \<and> make_ship ''1'' (PDict []) = Inr default_ship
   \<and> ship_rarity default_ship = PInt 1
   \<and> ship_star default_ship = PInt 1
   \<and> ship_armor_type default_ship = PInt 1"
  by code_simp

text \<open>
  C6, as the code has it. For an id present in both tables, with a template record that
  is an object, the template supplies exactly the fields \<^verbatim>\<open>damage\<close>, \<^verbatim>\<open>reload\<close> and
  \<^verbatim>\<open>armor_modifiers\<close>: each is the template's value when the template has the field and
  the empty list otherwise, which is also the value the entity has from the statistics
  record alone. Every other field keeps the value derived from the statistics record,
  whatever the template holds under its name.
\<close>

theorem template_supplies_curves:
  assumes "make_equipment key data = Inr equip"
    and "map_of templates key = Some (PDict template)"
  shows "parse_equipment_record (PDict templates) key data =
           Inr (equip\<lparr> equip_damage := dict_get template ''damage'' (PList []),
                        equip_reload := dict_get template ''reload'' (PList []),
                        equip_armor_modifiers := dict_get template ''armor_modifiers'' (PList []) \<rparr>)
         \<and> equip_damage equip = PList [] \<and> equip_reload equip = PList []
         \<and> equip_armor_modifiers equip = PList []"
  using assms make_equipment_no_curves [OF assms(1)]
  by (simp add: parse_equipment_record_def merge_template_def contains_def getitem_def get_def)

theorem template_supplies_curves_witness:
  "make_equipment ''2'' (PDict [(''name'', PStr ''A'')]) = Inr (default_equipment\<lparr>equip_id := 2, equip_name := PStr ''A''\<rparr>)
   \<and> map_of curves_table ''2'' = Some (PDict [(''reload'', PList [PInt 3, PInt 2])])
   \<and> parse_equipment_record (PDict curves_table) ''2'' (PDict [(''name'', PStr ''A'')]) =
       Inr (default_equipment\<lparr>equip_id := 2, equip_name := PStr ''A'',
              equip_reload := PList [PInt 3, PInt 2]\<rparr>)"
proof -
  have h1: "make_equipment ''2'' (PDict [(''name'', PStr ''A'')]) =
      Inr (default_equipment\<lparr>equip_id := 2, equip_name := PStr ''A''\<rparr>)"
    by code_simp
  have h2: "map_of curves_table ''2'' = Some (PDict [(''reload'', PList [PInt 3, PInt 2])])"
    by code_simp
  from template_supplies_curves [OF h1 h2]
  have "parse_equipment_record (PDict curves_table) ''2'' (PDict [(''name'', PStr ''A'')]) =
       Inr (default_equipment\<lparr>equip_id := 2, equip_name := PStr ''A'',
              equip_reload := PList [PInt 3, PInt 2]\<rparr>)"
    by (simp add: dict_get_def default_equipment_def)
  with h1 h2 show ?thesis by simp
qed

theorem template_name_counterexample:
  "map_of template_table ''1'' =
     Some (PDict [(''name'', PStr ''B''), (''rarity'', PInt 5), (''damage'', PList [PInt 9])])
   \<and> parse_equipment_record (PDict template_table) ''1'' (PDict [(''name'', PStr ''A'')]) =
       Inr (default_equipment\<lparr>equip_name := PStr ''A'', equip_damage := PList [PInt 9]\<rparr>)"
  by code_simp

section \<open>The tabular export\<close>

lemma out_files_put_file:
  "out_files (put_file name c s) name' = (if name' = name then Some c else out_files s name')"
  by (simp add: put_file_def)

lemma can_open_put_file [simp]: "can_open (put_file name c s) = can_open s"
  by (simp add: put_file_def)

lemma collections_put_file [simp]:
  "equipment (put_file name c s) = equipment s"
  "ships (put_file name c s) = ships s"
  "weapons (put_file name c s) = weapons s"
  by (simp_all add: put_file_def)

lemma write_csv_cases:
  assumes "can_open s name"
    and "\<And>ys. in_order collection = Inr ys \<Longrightarrow> set ys = set collection"
  shows "\<exists>rows. state_of (write_csv name fieldnames collection in_order row s)
                  = put_file name (Csv rows) s
           \<and> (rows = [] \<or> hd rows = fieldnames)
           \<and> (\<forall>r\<in>set (tl rows). \<exists>x\<in>set collection. row x = Inr r)"
proof (cases "collection = []")
  case True
  then show ?thesis using assms(1)
    by (intro exI [of _ "[]"]) (simp add: write_csv_def state_of_def)
next
  case False
  show ?thesis
  proof (cases "in_order collection")
    case (Inl e)
    then show ?thesis using assms(1) False
      by (intro exI [of _ "[fieldnames]"]) (simp add: write_csv_def state_of_def)
  next
    case (Inr ys)
    obtain eo rows where w: "write_rows row ys [fieldnames] = (eo, rows)"
      by (cases "write_rows row ys [fieldnames]") auto
    from write_rows_sound [OF w] obtain new where
      new: "rows = [fieldnames] @ new" "\<forall>r\<in>set new. \<exists>y\<in>set ys. row y = Inr r" by blast
    have st: "state_of (write_csv name fieldnames collection in_order row s)
        = put_file name (Csv rows) s"
      using assms(1) False Inr w by (cases eo) (simp_all add: write_csv_def state_of_def)
    show ?thesis
      using st new assms(2) [OF Inr] by (intro exI [of _ rows]) auto
  qed
qed

lemma sanitize_int: "sanitize_csv_field (PInt i) = cell_text (PInt i)"
  by (simp add: sanitize_csv_field_def cell_text_def)

lemma equipment_row_cells: "equipment_row equip = Inr r \<Longrightarrow> equipment_cells equip r"
  by (auto simp: equipment_row_def and_then_def equipment_cells_def sanitize_int split: sum.splits)

lemma ship_row_cells: "ship_row ship = Inr r \<Longrightarrow> ship_cells ship r"
  by (auto simp: ship_row_def and_then_def ship_cells_def sanitize_int split: sum.splits)

lemma weapon_row_cells_of: "weapon_row weapon = Inr r \<Longrightarrow> weapon_cells weapon r"
  by (auto simp: weapon_row_def weapon_cells_def sanitize_int)

lemma rows_from_block:
  assumes "can_open s name"
    and "\<And>ys. in_order collection = Inr ys \<Longrightarrow> set ys = set collection"
    and "\<And>x r. row x = Inr r \<Longrightarrow> cells x r"
  shows "\<exists>rows. state_of (write_csv name fieldnames collection in_order row s)
                  = put_file name (Csv rows) s
           \<and> rows_from cells collection fieldnames (Some (Csv rows))"
proof -
  from write_csv_cases [where in_order = in_order and collection = collection, OF assms(1,2)]
  obtain rows where
    st: "state_of (write_csv name fieldnames collection in_order row s) = put_file name (Csv rows) s"
    and h: "rows = [] \<or> hd rows = fieldnames"
    and r: "\<forall>r\<in>set (tl rows). \<exists>x\<in>set collection. row x = Inr r"
    by blast
  have "list_all (\<lambda>r. list_ex (\<lambda>x. cells x r) collection) (tl rows)"
    unfolding list_all_iff list_ex_iff
  proof
    fix r' assume "r' \<in> set (tl rows)"
    with r obtain x where x: "x \<in> set collection" "row x = Inr r'" by blast
    from assms(3) [OF x(2)] x(1) show "\<exists>x\<in>set collection. cells x r'" by blast
  qed
  with h have "rows_from cells collection fieldnames (Some (Csv rows))"
    by (simp add: rows_from_def)
  with st show ?thesis by blast
qed

lemma sanitize_string:
  "sanitize_csv_field (PStr cs) =
     (if cs \<noteq> [] \<and> hd cs \<in> set formula_chars then CHR 0x27 # cs else cs)"
  by (cases cs) (simp_all add: sanitize_csv_field_def str_def)

lemma sanitize_other: "\<forall>cs. v \<noteq> PStr cs \<Longrightarrow> sanitize_csv_field v = str v"
  by (cases v) (simp_all add: sanitize_csv_field_def)

lemma block_effect:
  assumes "\<And>ys. in_order collection = Inr ys \<Longrightarrow> set ys = set collection"
    and "\<And>x r. row x = Inr r \<Longrightarrow> cells x r"
  shows "state_of (write_csv name fieldnames collection in_order row s) = s
       \<or> (\<exists>rows. state_of (write_csv name fieldnames collection in_order row s)
                      = put_file name (Csv rows) s
                 \<and> rows_from cells collection fieldnames (Some (Csv rows)))"
proof (cases "can_open s name")
  case True
  from rows_from_block [where in_order = in_order and collection = collection and row = row
      and cells = cells, OF True assms]
  show ?thesis by blast
next
  case False
  then show ?thesis by (simp add: write_csv_def state_of_def)
qed

lemma state_of_and_next:
  assumes "P (state_of r)" and "\<And>t. P t \<Longrightarrow> P (state_of (f t))"
  shows "P (state_of (and_next r f))"
proof (cases r)
  case (Inl es)
  then show ?thesis using assms(1) by simp
next
  case (Inr t)
  then have "P t" using assms(1) by (simp add: state_of_def)
  then show ?thesis using Inr assms(2) by simp
qed

lemma export_equipment_csv_effect:
  "state_of (export_equipment_csv s) = s
   \<or> (\<exists>rows. state_of (export_equipment_csv s) = put_file ''equipment.csv'' (Csv rows) s
         \<and> rows_from equipment_cells (dict_values (equipment s)) equipment_fieldnames (Some (Csv rows)))"
  unfolding export_equipment_csv_def
  by (rule block_effect
      [where in_order = "sorted_by py_lt_list (\<lambda>x. [equip_type x, equip_rarity x, equip_tech x])"
         and collection = "dict_values (equipment s)" and row = equipment_row
         and cells = equipment_cells, OF sorted_by_set equipment_row_cells])

lemma export_ships_csv_effect:
  "state_of (export_ships_csv s) = s
   \<or> (\<exists>rows. state_of (export_ships_csv s) = put_file ''ships.csv'' (Csv rows) s
         \<and> rows_from ship_cells (dict_values (ships s)) ship_fieldnames (Some (Csv rows)))"
  unfolding export_ships_csv_def
  by (rule block_effect
      [where in_order = "sorted_by py_lt_list (\<lambda>x. [ship_type x, ship_rarity x, PInt (ship_id x)])"
         and collection = "dict_values (ships s)" and row = ship_row
         and cells = ship_cells, OF sorted_by_set ship_row_cells])

lemma export_weapons_csv_effect:
  "state_of (export_weapons_csv s) = s
   \<or> (\<exists>rows. state_of (export_weapons_csv s) = put_file ''weapons.csv'' (Csv rows) s
         \<and> rows_from weapon_cells (dict_values (weapons s)) weapon_fieldnames (Some (Csv rows)))"
  unfolding export_weapons_csv_def
  by (rule block_effect
      [where in_order = "sorted_by int_lt weapon_id"
         and collection = "dict_values (weapons s)" and row = weapon_row
         and cells = weapon_cells, OF sorted_by_set weapon_row_cells_of])

text \<open>
  What \<^verbatim>\<open>export_to_csv\<close> does sanitize. Whether it returns or raises, each of the three
  files is as it was before the call, or it is empty or a header row followed by rows
  that were each written for an entity of the collection, with the cell of the \<^verbatim>\<open>id\<close>
  and the cells of the free-text fields equal to the sanitization of the entity's fields.
\<close>

lemma free_text_cells_sanitized:
  "(out_files (state_of (export_to_csv s)) ''equipment.csv'' = out_files s ''equipment.csv''
      \<or> rows_from equipment_cells (dict_values (equipment s)) equipment_fieldnames
           (out_files (state_of (export_to_csv s)) ''equipment.csv''))
   \<and> (out_files (state_of (export_to_csv s)) ''ships.csv'' = out_files s ''ships.csv''
      \<or> rows_from ship_cells (dict_values (ships s)) ship_fieldnames
           (out_files (state_of (export_to_csv s)) ''ships.csv''))
   \<and> (out_files (state_of (export_to_csv s)) ''weapons.csv'' = out_files s ''weapons.csv''
      \<or> rows_from weapon_cells (dict_values (weapons s)) weapon_fieldnames
           (out_files (state_of (export_to_csv s)) ''weapons.csv''))"
proof -
  define P where "P = (\<lambda>t :: state.
      equipment t = equipment s \<and> ships t = ships s \<and> weapons t = weapons s
    \<and> (out_files t ''equipment.csv'' = out_files s ''equipment.csv''
        \<or> rows_from equipment_cells (dict_values (equipment s)) equipment_fieldnames
             (out_files t ''equipment.csv''))
    \<and> (out_files t ''ships.csv'' = out_files s ''ships.csv''
        \<or> rows_from ship_cells (dict_values (ships s)) ship_fieldnames
             (out_files t ''ships.csv''))
    \<and> (out_files t ''weapons.csv'' = out_files s ''weapons.csv''
        \<or> rows_from weapon_cells (dict_values (weapons s)) weapon_fieldnames
             (out_files t ''weapons.csv'')))"
  have start: "P s" by (simp add: P_def)
  have e: "P (state_of (export_equipment_csv t))" if "P t" for t
  proof -
    from export_equipment_csv_effect [of t]
    consider "state_of (export_equipment_csv t) = t"
      | rows where "state_of (export_equipment_csv t) = put_file ''equipment.csv'' (Csv rows) t"
          "rows_from equipment_cells (dict_values (equipment t)) equipment_fieldnames (Some (Csv rows))"
      by blast
    then show ?thesis
    proof cases
      case 1
      then show ?thesis using that by simp
    next
      case 2
      then show ?thesis using that by (simp add: P_def out_files_put_file)
    qed
  qed
  have sh: "P (state_of (export_ships_csv t))" if "P t" for t
  proof -
    from export_ships_csv_effect [of t]
    consider "state_of (export_ships_csv t) = t"
      | rows where "state_of (export_ships_csv t) = put_file ''ships.csv'' (Csv rows) t"
          "rows_from ship_cells (dict_values (ships t)) ship_fieldnames (Some (Csv rows))"
      by blast
    then show ?thesis
    proof cases
      case 1
      then show ?thesis using that by simp
    next
      case 2
      then show ?thesis using that by (simp add: P_def out_files_put_file)
    qed
  qed
  have w: "P (state_of (export_weapons_csv t))" if "P t" for t
  proof -
    from export_weapons_csv_effect [of t]
    consider "state_of (export_weapons_csv t) = t"
      | rows where "state_of (export_weapons_csv t) = put_file ''weapons.csv'' (Csv rows) t"
          "rows_from weapon_cells (dict_values (weapons t)) weapon_fieldnames (Some (Csv rows))"
      by blast
    then show ?thesis
    proof cases
      case 1
      then show ?thesis using that by simp
    next
      case 2
      then show ?thesis using that by (simp add: P_def out_files_put_file)
    qed
  qed
  have "P (state_of (export_to_csv s))"
  proof (cases "can_make_dir s")
    case True
    have "P (state_of (and_next (export_equipment_csv s) export_ships_csv))"
      by (rule state_of_and_next [where P = P, OF e [OF start] sh])
    then have "P (state_of (and_next (and_next (export_equipment_csv s) export_ships_csv)
        export_weapons_csv))"
      by (rule state_of_and_next [where P = P, OF _ w])
    then show ?thesis using True by (simp add: export_to_csv_def)
  next
    case False
    then show ?thesis by (simp add: export_to_csv_def state_of_def say_def P_def)
  qed
  then show ?thesis by (simp add: P_def)
qed

text \<open>
  C1 at a statistics record whose \<^verbatim>\<open>tech\<close> is the string \<^verbatim>\<open>=1+1\<close>. The claim is that every
  cell of every row written is the sanitization of the entity's field. Here the parser
  keeps the string as the field of the entity, the run returns, and the row of
  \<^verbatim>\<open>equipment.csv\<close> holds the string as it is, while its sanitization begins with a single
  quote: \<^verbatim>\<open>export_to_csv\<close> calls \<^verbatim>\<open>sanitize_csv_field\<close> on the free-text fields only.
\<close>

theorem formula_reaches_tech_cell:
  "(case run formula_tech_parser of
      Inl _ \<Rightarrow> False
    | Inr s \<Rightarrow>
        map equip_tech (dict_values (equipment s)) = [PStr ''=1+1'']
        \<and> out_files s ''equipment.csv'' =
            Some (Csv [[''id'', ''name'', ''type_name'', ''rarity'', ''nationality'', ''tech'',
                        ''weapon_ids'', ''description'', ''speciality''],
                       [''1'', ''A'', ''Unknown'', ''Common'', ''Universal'', ''=1+1'', [], [], []]]))
   \<and> sanitize_csv_field (PStr ''=1+1'') = [CHR 0x27, CHR ''='', CHR ''1'', CHR ''+'', CHR ''1'']"
  by code_simp

section \<open>An empty collection\<close>

lemma write_csv_other_file:
  "name' \<noteq> name \<Longrightarrow>
   out_files (state_of (write_csv name fieldnames collection in_order row s)) name' = out_files s name'"
  by (auto simp: write_csv_def state_of_def out_files_put_file split: sum.splits prod.splits option.splits)

lemma export_ships_csv_other:
  "name' \<noteq> ''ships.csv'' \<Longrightarrow> out_files (state_of (export_ships_csv s)) name' = out_files s name'"
  unfolding export_ships_csv_def by (rule write_csv_other_file)

lemma export_weapons_csv_other:
  "name' \<noteq> ''weapons.csv'' \<Longrightarrow> out_files (state_of (export_weapons_csv s)) name' = out_files s name'"
  unfolding export_weapons_csv_def by (rule write_csv_other_file)

text \<open>
  C2, as the code has it. With an empty equipment collection, an output directory that
  can be created and a file that can be opened, the block of \<^verbatim>\<open>export_to_csv\<close> that
  writes \<^verbatim>\<open>equipment.csv\<close> returns without raising and leaves the file empty: the
  header is written only for a collection that is not empty. The file is still empty
  when \<^verbatim>\<open>export_to_csv\<close> ends, however the blocks for ships and weapons end.
\<close>

theorem empty_equipment_empty_file:
  assumes "equipment s = []" and "can_make_dir s" and "can_open s ''equipment.csv''"
  shows "export_equipment_csv s = Inr (put_file ''equipment.csv'' (Csv []) s)
       \<and> out_files (state_of (export_to_csv s)) ''equipment.csv'' = Some (Csv [])"
proof -
  let ?s1 = "put_file ''equipment.csv'' (Csv []) s"
  have e: "export_equipment_csv s = Inr ?s1"
    using assms(1,3) by (simp add: export_equipment_csv_def write_csv_def dict_values_def)
  have "out_files (state_of (and_next (export_ships_csv ?s1) export_weapons_csv)) ''equipment.csv''
      = Some (Csv [])"
  proof (cases "export_ships_csv ?s1")
    case (Inl es)
    then have "state_of (export_ships_csv ?s1) = snd es" by (simp add: state_of_def)
    then have "out_files (snd es) ''equipment.csv'' = Some (Csv [])"
      using export_ships_csv_other [of "''equipment.csv''" ?s1] by (simp add: out_files_put_file)
    then show ?thesis using Inl by (simp add: state_of_def)
  next
    case (Inr s2)
    then have "state_of (export_ships_csv ?s1) = s2" by (simp add: state_of_def)
    then have "out_files s2 ''equipment.csv'' = Some (Csv [])"
      using export_ships_csv_other [of "''equipment.csv''" ?s1] by (simp add: out_files_put_file)
    then show ?thesis
      using Inr export_weapons_csv_other [of "''equipment.csv''" s2]
      by simp
  qed
  then show ?thesis using e assms(2) by (simp add: export_to_csv_def)
qed

theorem empty_equipment_empty_file_witness:
  "equipment empty_state = [] \<and> can_make_dir empty_state \<and> can_open empty_state ''equipment.csv''
   \<and> out_files (state_of (export_equipment_csv empty_state)) ''equipment.csv'' = Some (Csv [])
   \<and> out_files (state_of (export_to_csv empty_state)) ''equipment.csv'' = Some (Csv [])"
proof -
  have h1: "equipment empty_state = []" by code_simp
  have h2: "can_make_dir empty_state" by code_simp
  have h3: "can_open empty_state ''equipment.csv''" by code_simp
  from empty_equipment_empty_file [OF h1 h2 h3]
  have "out_files (state_of (export_equipment_csv empty_state)) ''equipment.csv'' = Some (Csv [])
      \<and> out_files (state_of (export_to_csv empty_state)) ''equipment.csv'' = Some (Csv [])"
    by (simp add: state_of_def out_files_put_file)
  with h1 h2 h3 show ?thesis by blast
qed

theorem no_header_counterexample:
  "(case export_to_csv empty_state of
      Inl _ \<Rightarrow> False
    | Inr s' \<Rightarrow> out_files s' ''equipment.csv'' = Some (Csv [])
              \<and> out_files s' ''equipment.csv'' \<noteq> Some (Csv [equipment_fieldnames]))"
  by code_simp

section \<open>An output directory that cannot be created\<close>

lemma export_to_json_raises: "\<not> can_make_dir s \<Longrightarrow> export_to_json s = Inl (OSError, s)"
  by (simp add: export_to_json_def)

lemma export_to_csv_contains:
  "\<not> can_make_dir s \<Longrightarrow> export_to_csv s = Inr (say (Err_creating_output_directory OSError) s)"
  by (simp add: export_to_csv_def)

text \<open>
  C4 at an output directory that cannot be created: \<^verbatim>\<open>export_to_csv\<close> prints the error
  and returns, \<^verbatim>\<open>export_to_json\<close> raises \<^verbatim>\<open>OSError\<close>, and so does the whole run.
\<close>

theorem makedirs_failure_leaves_export_to_json:
  "\<not> can_make_dir locked_state
   \<and> (case export_to_csv locked_state of
         Inl _ \<Rightarrow> False
       | Inr s' \<Rightarrow> console s' = [Err_creating_output_directory OSError])
   \<and> (case export_to_json locked_state of Inl es \<Rightarrow> fst es = OSError | Inr _ \<Rightarrow> False)
   \<and> (case run locked_state of Inl es \<Rightarrow> fst es = OSError | Inr _ \<Rightarrow> False)"
  by code_simp

section \<open>Two runs over the same input\<close>

lemma lift_state_Inr [simp]: "lift_state h (Inr s) = Inr (h s)"
  by (simp add: lift_state_def)

lemma lift_state_Inl [simp]: "lift_state h (Inl (e, s)) = Inl (e, h s)"
  by (simp add: lift_state_def)

lemma overlay_overlay: "overlay g (overlay (out_files t) u) = overlay (g ++ out_files t) u"
  by (simp add: overlay_def)

lemma framed_commuting:
  assumes "\<And>s g. f (s\<lparr>out_files := g\<rparr>) = lift_state (\<lambda>t. t\<lparr>out_files := g\<rparr>) (f s)"
  shows "framed f"
  unfolding framed_def
proof (intro allI)
  fix s g
  have e: "f (s\<lparr>out_files := Map.empty\<rparr>) = lift_state (\<lambda>t. t\<lparr>out_files := Map.empty\<rparr>) (f s)"
    by (rule assms)
  have e': "f (s\<lparr>out_files := g\<rparr>) = lift_state (\<lambda>t. t\<lparr>out_files := g\<rparr>) (f s)"
    by (rule assms)
  show "f (s\<lparr>out_files := g\<rparr>) = lift_state (overlay g) (f (s\<lparr>out_files := Map.empty\<rparr>))"
    unfolding e e'
    by (cases "f s") (auto simp: overlay_def)
qed

lemma framed_and_next:
  assumes "framed f" and "framed h"
  shows "framed (\<lambda>s. and_next (f s) h)"
  unfolding framed_def
proof (intro allI)
  fix s g
  let ?core = "f (s\<lparr>out_files := Map.empty\<rparr>)"
  have f: "f (s\<lparr>out_files := g\<rparr>) = lift_state (overlay g) ?core"
    by (rule assms(1) [unfolded framed_def, rule_format])
  show "and_next (f (s\<lparr>out_files := g\<rparr>)) h
      = lift_state (overlay g) (and_next ?core h)"
  proof (cases ?core)
    case (Inl es)
    then show ?thesis unfolding f by (cases es) simp
  next
    case (Inr t)
    have "h (t\<lparr>out_files := g ++ out_files t\<rparr>)
        = lift_state (overlay (g ++ out_files t)) (h (t\<lparr>out_files := Map.empty\<rparr>))"
      by (rule assms(2) [unfolded framed_def, rule_format])
    then have h1: "h (overlay g t) = lift_state (overlay (g ++ out_files t)) (h (t\<lparr>out_files := Map.empty\<rparr>))"
      by (simp add: overlay_def)
    have "h (t\<lparr>out_files := out_files t\<rparr>)
        = lift_state (overlay (out_files t)) (h (t\<lparr>out_files := Map.empty\<rparr>))"
      by (rule assms(2) [unfolded framed_def, rule_format])
    then have h2: "h t = lift_state (overlay (out_files t)) (h (t\<lparr>out_files := Map.empty\<rparr>))"
      by simp
    have "lift_state (overlay g) (h t) = h (overlay g t)"
      unfolding h1 h2
      by (cases "h (t\<lparr>out_files := Map.empty\<rparr>)") (auto simp: overlay_overlay)
    then show ?thesis unfolding f Inr by simp
  qed
qed

lemma say_out: "say ev (s\<lparr>out_files := g\<rparr>) = (say ev s)\<lparr>out_files := g\<rparr>"
  by (simp add: say_def)

lemma load_json_out:
  "load_json name (s\<lparr>out_files := g\<rparr>) =
     (fst (load_json name s), (snd (load_json name s))\<lparr>out_files := g\<rparr>)"
  by (simp add: load_json_def say_out split: file_state.splits)

lemma load_json_case_out:
  "(case load_json name (s\<lparr>out_files := g\<rparr>) of (v, s') \<Rightarrow> F v s') =
     (case load_json name s of (v, s') \<Rightarrow> F v (s'\<lparr>out_files := g\<rparr>))"
  by (simp add: load_json_out split: prod.splits)

lemma out_files_last:
  "s\<lparr>out_files := g, equipment := e\<rparr> = s\<lparr>equipment := e, out_files := g\<rparr>"
  "s\<lparr>out_files := g, ships := sh\<rparr> = s\<lparr>ships := sh, out_files := g\<rparr>"
  "s\<lparr>out_files := g, weapons := w\<rparr> = s\<lparr>weapons := w, out_files := g\<rparr>"
  by simp_all

lemma parse_equipment_items_out:
  "parse_equipment_items templates kvs (s\<lparr>out_files := g\<rparr>) =
     (parse_equipment_items templates kvs s)\<lparr>out_files := g\<rparr>"
proof (induction kvs arbitrary: s)
  case Nil
  then show ?case by simp
next
  case (Cons kv kvs)
  show ?case
    by (cases "parse_equipment_record templates (fst kv) (snd kv)")
      (simp_all add: say_out out_files_last Cons.IH)
qed

lemma parse_ships_items_out:
  "parse_ships_items kvs (s\<lparr>out_files := g\<rparr>) = (parse_ships_items kvs s)\<lparr>out_files := g\<rparr>"
proof (induction kvs arbitrary: s)
  case Nil
  then show ?case by simp
next
  case (Cons kv kvs)
  show ?case
    by (cases "make_ship (fst kv) (snd kv)") (simp_all add: say_out out_files_last Cons.IH)
qed

lemma parse_weapons_items_out:
  "parse_weapons_items kvs (s\<lparr>out_files := g\<rparr>) = (parse_weapons_items kvs s)\<lparr>out_files := g\<rparr>"
proof (induction kvs arbitrary: s)
  case Nil
  then show ?case by simp
next
  case (Cons kv kvs)
  show ?case
    by (cases "make_weapon (weapon_names s) (fst kv) (snd kv)")
      (simp_all add: say_out out_files_last Cons.IH)
qed

lemma framed_parse_equipment: "framed parse_equipment"
proof (rule framed_commuting)
  fix s g
  show "parse_equipment (s\<lparr>out_files := g\<rparr>) = lift_state (\<lambda>t. t\<lparr>out_files := g\<rparr>) (parse_equipment s)"
    by (simp add: parse_equipment_def load_json_case_out parse_equipment_items_out
        split: prod.splits sum.splits)
qed

lemma framed_parse_ships: "framed parse_ships"
proof (rule framed_commuting)
  fix s g
  show "parse_ships (s\<lparr>out_files := g\<rparr>) = lift_state (\<lambda>t. t\<lparr>out_files := g\<rparr>) (parse_ships s)"
    by (simp add: parse_ships_def load_json_case_out parse_ships_items_out
        split: prod.splits sum.splits)
qed

lemma framed_parse_weapons: "framed parse_weapons"
proof (rule framed_commuting)
  fix s g
  show "parse_weapons (s\<lparr>out_files := g\<rparr>) = lift_state (\<lambda>t. t\<lparr>out_files := g\<rparr>) (parse_weapons s)"
  proof -
    obtain names_doc s1 where l1: "load_json ''weapon_name.json'' s = (names_doc, s1)"
      by (cases "load_json ''weapon_name.json'' s") auto
    show ?thesis
    proof (cases "and_then (items names_doc) (\<lambda>kvs. int_keys kvs [])")
      case (Inl e)
      then show ?thesis by (simp add: parse_weapons_def load_json_case_out l1)
    next
      case (Inr names)
      obtain wp s2 where l2: "load_json ''weapon_property.json'' (s1\<lparr>weapon_names := names\<rparr>) = (wp, s2)"
        by (cases "load_json ''weapon_property.json'' (s1\<lparr>weapon_names := names\<rparr>)") auto
      have l2': "load_json ''weapon_property.json'' (s1\<lparr>out_files := g, weapon_names := names\<rparr>)
          = (wp, s2\<lparr>out_files := g\<rparr>)"
      proof -
        have sw: "s1\<lparr>out_files := g, weapon_names := names\<rparr>
            = s1\<lparr>weapon_names := names, out_files := g\<rparr>" by simp
        show ?thesis
          unfolding sw
          using load_json_out [where name = "''weapon_property.json''"
              and s = "s1\<lparr>weapon_names := names\<rparr>" and g = g] l2
          by simp
      qed
      show ?thesis
      proof (cases "truthy wp")
        case True
        then show ?thesis
          by (simp add: parse_weapons_def load_json_case_out l1 Inr l2 l2'
              parse_weapons_items_out split: sum.splits)
      next
        case False
        obtain wd s3 where l3: "load_json ''bullet_template.json'' (say Note_weapon_fallback s2) = (wd, s3)"
          by (cases "load_json ''bullet_template.json'' (say Note_weapon_fallback s2)") auto
        have l3': "load_json ''bullet_template.json'' (say Note_weapon_fallback (s2\<lparr>out_files := g\<rparr>))
            = (wd, s3\<lparr>out_files := g\<rparr>)"
          using load_json_out [where name = "''bullet_template.json''" and s = "say Note_weapon_fallback s2" and g = g] l3
          by (simp add: say_out)
        from False show ?thesis
          by (simp add: parse_weapons_def load_json_case_out l1 Inr l2 l2' l3 l3'
              parse_weapons_items_out split: sum.splits)
      qed
    qed
  qed
qed

lemma framed_analyze_equipment_stats: "framed analyze_equipment_stats"
  by (rule framed_commuting) (simp add: analyze_equipment_stats_def split: sum.splits)

lemma framed_analyze_ship_stats: "framed analyze_ship_stats"
  by (rule framed_commuting) (simp add: analyze_ship_stats_def split: sum.splits)

lemma write_csv_framed:
  "write_csv name fieldnames collection in_order row (s\<lparr>out_files := g\<rparr>)
     = lift_state (overlay g) (write_csv name fieldnames collection in_order row (s\<lparr>out_files := Map.empty\<rparr>))"
  by (simp add: write_csv_def put_file_def overlay_def split: sum.splits prod.splits option.splits)

lemma framed_export_equipment_csv: "framed export_equipment_csv"
  unfolding framed_def export_equipment_csv_def
  by (intro allI, simp) (rule write_csv_framed)

lemma framed_export_ships_csv: "framed export_ships_csv"
  unfolding framed_def export_ships_csv_def
  by (intro allI, simp) (rule write_csv_framed)

lemma framed_export_weapons_csv: "framed export_weapons_csv"
  unfolding framed_def export_weapons_csv_def
  by (intro allI, simp) (rule write_csv_framed)

lemma framed_if:
  assumes "framed f" and "framed h" and "\<And>s g. c (s\<lparr>out_files := g\<rparr>) = c s"
  shows "framed (\<lambda>s. if c s then f s else h s)"
  unfolding framed_def
proof (intro allI)
  fix s g
  have c1: "c (s\<lparr>out_files := g\<rparr>) = c s" by (rule assms(3))
  have c2: "c (s\<lparr>out_files := Map.empty\<rparr>) = c s" by (rule assms(3))
  have f: "f (s\<lparr>out_files := g\<rparr>) = lift_state (overlay g) (f (s\<lparr>out_files := Map.empty\<rparr>))"
    by (rule assms(1) [unfolded framed_def, rule_format])
  have h: "h (s\<lparr>out_files := g\<rparr>) = lift_state (overlay g) (h (s\<lparr>out_files := Map.empty\<rparr>))"
    by (rule assms(2) [unfolded framed_def, rule_format])
  show "(if c (s\<lparr>out_files := g\<rparr>) then f (s\<lparr>out_files := g\<rparr>) else h (s\<lparr>out_files := g\<rparr>))
      = lift_state (overlay g)
          (if c (s\<lparr>out_files := Map.empty\<rparr>) then f (s\<lparr>out_files := Map.empty\<rparr>)
           else h (s\<lparr>out_files := Map.empty\<rparr>))"
    unfolding c1 c2 f h by simp
qed

lemma framed_export_to_csv: "framed export_to_csv"
proof -
  have a: "framed (\<lambda>s. Inr (say (Err_creating_output_directory OSError) s))"
    by (rule framed_commuting) (simp add: say_out)
  have b: "framed (\<lambda>s. and_next (export_equipment_csv s) export_ships_csv)"
    by (rule framed_and_next [OF framed_export_equipment_csv framed_export_ships_csv])
  have c: "framed (\<lambda>s. and_next (and_next (export_equipment_csv s) export_ships_csv) export_weapons_csv)"
    by (rule framed_and_next [OF b framed_export_weapons_csv])
  have "framed (\<lambda>s. if \<not> can_make_dir s then Inr (say (Err_creating_output_directory OSError) s)
       else and_next (and_next (export_equipment_csv s) export_ships_csv) export_weapons_csv)"
    by (rule framed_if [OF a c]) simp
  then show ?thesis by (simp add: export_to_csv_def [abs_def])
qed

lemma write_json_framed:
  "write_json name doc (s\<lparr>out_files := g\<rparr>)
     = lift_state (overlay g) (write_json name doc (s\<lparr>out_files := Map.empty\<rparr>))"
  by (simp add: write_json_def put_file_def overlay_def)

lemma framed_write_json: "framed (write_json name doc)"
  unfolding framed_def by (intro allI) (rule write_json_framed)

lemma framed_case:
  assumes "\<And>x. framed (h x)"
  shows "framed (\<lambda>s. case r of Inl e \<Rightarrow> Inl (e, s) | Inr x \<Rightarrow> h x s)"
proof (cases r)
  case (Inl e)
  have "framed (\<lambda>s. Inl (e, s))" by (rule framed_commuting) simp
  then show ?thesis using Inl by simp
next
  case (Inr x)
  then show ?thesis using assms [of x] by simp
qed

lemma framed_export_to_json: "framed export_to_json"
  unfolding framed_def
  by (auto simp: export_to_json_def write_json_def put_file_def overlay_def and_next_def
      summary_document_def split: sum.splits)

lemma framed_run: "framed run"
proof -
  have 1: "framed (\<lambda>s. and_next (parse_weapons s) parse_equipment)"
    by (rule framed_and_next [OF framed_parse_weapons framed_parse_equipment])
  have 2: "framed (\<lambda>s. and_next (and_next (parse_weapons s) parse_equipment) parse_ships)"
    by (rule framed_and_next [OF 1 framed_parse_ships])
  have 3: "framed (\<lambda>s. and_next (and_next (and_next (parse_weapons s) parse_equipment)
      parse_ships) analyze_equipment_stats)"
    by (rule framed_and_next [OF 2 framed_analyze_equipment_stats])
  have 4: "framed (\<lambda>s. and_next (and_next (and_next (and_next (parse_weapons s) parse_equipment)
      parse_ships) analyze_equipment_stats) analyze_ship_stats)"
    by (rule framed_and_next [OF 3 framed_analyze_ship_stats])
  have 5: "framed (\<lambda>s. and_next (and_next (and_next (and_next (and_next (parse_weapons s)
      parse_equipment) parse_ships) analyze_equipment_stats) analyze_ship_stats) export_to_csv)"
    by (rule framed_and_next [OF 4 framed_export_to_csv])
  have 6: "framed (\<lambda>s. and_next (and_next (and_next (and_next (and_next (and_next (parse_weapons s)
      parse_equipment) parse_ships) analyze_equipment_stats) analyze_ship_stats) export_to_csv)
      export_to_json)"
    by (rule framed_and_next [OF 5 framed_export_to_json])
  then show ?thesis by (simp add: run_def [abs_def])
qed

lemma run_in_directory:
  "run (new_parser files mk opn outs)
     = lift_state (overlay outs) (run (new_parser files mk opn Map.empty))"
  using framed_run [unfolded framed_def, rule_format,
      where s = "new_parser files mk opn Map.empty" and g = outs]
  by (simp add: new_parser_def)

lemma state_of_lift_state: "state_of (lift_state h r) = h (state_of r)"
  by (cases r) (simp_all add: state_of_def lift_state_def)

lemma map_add_twice: "g ++ h ++ h = g ++ h"
  by (rule ext) (simp add: map_add_def split: option.splits)

lemma lift_state_overlay_twice:
  "lift_state (overlay (out_files (overlay g (state_of r)))) r = lift_state (overlay g) r"
  by (cases r) (simp_all add: state_of_def lift_state_def overlay_def map_add_twice)

lemma export_to_csv_written:
  assumes "export_to_csv s = Inr t" and "can_make_dir t"
  shows "out_files t ''equipment.csv'' \<noteq> None \<and> out_files t ''ships.csv'' \<noteq> None
       \<and> out_files t ''weapons.csv'' \<noteq> None"
  using assms
  by (auto simp: export_to_csv_def and_next_def export_equipment_csv_def export_ships_csv_def
      export_weapons_csv_def write_csv_def put_file_def say_def
      split: sum.splits if_splits prod.splits option.splits)

lemma export_to_json_written:
  assumes "export_to_json s = Inr t"
  shows "can_make_dir s
       \<and> out_files t ''equipment_by_type.json'' \<noteq> None
       \<and> out_files t ''ships_by_type.json'' \<noteq> None
       \<and> out_files t ''summary.json'' \<noteq> None
       \<and> (\<forall>name. out_files s name \<noteq> None \<longrightarrow> out_files t name \<noteq> None)"
  using assms
  by (auto simp: export_to_json_def and_next_def write_json_def put_file_def
      split: sum.splits if_splits)

lemma run_written:
  assumes "run s = Inr t"
  shows "list_all (\<lambda>name. out_files t name \<noteq> None) output_names"
proof -
  from assms obtain t5 t6 where c: "export_to_csv t5 = Inr t6" and j: "export_to_json t6 = Inr t"
    by (auto simp: run_def and_next_def split: sum.splits)
  from export_to_json_written [OF j] export_to_csv_written [OF c]
  show ?thesis by (simp add: output_names_def)
qed

text \<open>
  C9. A run is a function of the data files, of what the file system allows and of what
  the output directory holds when the run starts, and what the directory holds does not
  matter. A second run over the same data files, started in the directory as the first
  run left it, ends as the first did: with the same files, the same prints and, if it
  raises, the same exception. A run in a directory that holds \<open>outs\<close> is the run in an
  empty directory laid over \<open>outs\<close>. When a run returns, a run over the same data files
  in any other directory returns too, and the three CSV files and the three JSON files
  exist and are the same after both. Files are compared as the rows and the documents
  handed to \<^verbatim>\<open>csv.DictWriter\<close> and to \<^verbatim>\<open>json.dump\<close>.
\<close>

theorem run_twice_same_outputs:
  "run (new_parser files mk opn (out_files (state_of (run (new_parser files mk opn outs)))))
     = run (new_parser files mk opn outs)
   \<and> run (new_parser files mk opn outs)
     = lift_state (overlay outs) (run (new_parser files mk opn Map.empty))
   \<and> ((case run (new_parser files mk opn outs) of Inl _ \<Rightarrow> False | Inr _ \<Rightarrow> True) \<longrightarrow>
        (case run (new_parser files mk opn outs') of Inl _ \<Rightarrow> False | Inr _ \<Rightarrow> True)
        \<and> list_all (\<lambda>name.
             out_files (state_of (run (new_parser files mk opn outs))) name \<noteq> None
             \<and> out_files (state_of (run (new_parser files mk opn outs'))) name
               = out_files (state_of (run (new_parser files mk opn outs))) name) output_names)"
proof (intro conjI impI)
  let ?r0 = "run (new_parser files mk opn Map.empty)"
  have d: "run (new_parser files mk opn g) = lift_state (overlay g) ?r0" for g
    by (rule run_in_directory)
  show "run (new_parser files mk opn (out_files (state_of (run (new_parser files mk opn outs)))))
     = run (new_parser files mk opn outs)"
    unfolding d [of outs] state_of_lift_state
    unfolding d [of "out_files (overlay outs (state_of ?r0))"]
    by (rule lift_state_overlay_twice)
  show "run (new_parser files mk opn outs) = lift_state (overlay outs) ?r0"
    by (rule d)
  assume "case run (new_parser files mk opn outs) of Inl _ \<Rightarrow> False | Inr _ \<Rightarrow> True"
  then obtain t where t: "?r0 = Inr t"
    unfolding d [of outs] by (cases ?r0) (simp_all add: lift_state_def)
  show "case run (new_parser files mk opn outs') of Inl _ \<Rightarrow> False | Inr _ \<Rightarrow> True"
    unfolding d [of outs'] t by simp
  from run_written [OF t]
  show "list_all (\<lambda>name.
             out_files (state_of (run (new_parser files mk opn outs))) name \<noteq> None
             \<and> out_files (state_of (run (new_parser files mk opn outs'))) name
               = out_files (state_of (run (new_parser files mk opn outs))) name) output_names"
    unfolding d [of outs] d [of outs'] t
    by (auto simp: state_of_def overlay_def list_all_iff map_add_def split: option.splits)
qed

theorem run_twice_same_outputs_witness:
  "(case run (new_parser formula_tech_files True any_file Map.empty) of
      Inl _ \<Rightarrow> False | Inr _ \<Rightarrow> True)
   \<and> (case run (new_parser formula_tech_files True any_file stale_files) of
      Inl _ \<Rightarrow> False | Inr _ \<Rightarrow> True)
   \<and> stale_files ''summary.json'' = Some (Csv [[''old'']])
   \<and> out_files (state_of (run (new_parser formula_tech_files True any_file Map.empty)))
        ''summary.json'' \<noteq> None
   \<and> out_files (state_of (run (new_parser formula_tech_files True any_file stale_files)))
        ''summary.json''
     = out_files (state_of (run (new_parser formula_tech_files True any_file Map.empty)))
        ''summary.json''
   \<and> out_files (state_of (run (new_parser formula_tech_files True any_file stale_files)))
        ''equipment.csv''
     = out_files (state_of (run (new_parser formula_tech_files True any_file Map.empty)))
        ''equipment.csv''"
proof -
  have h: "case run (new_parser formula_tech_files True any_file Map.empty) of
      Inl _ \<Rightarrow> False | Inr _ \<Rightarrow> True"
    by code_simp
  have o: "stale_files ''summary.json'' = Some (Csv [[''old'']])"
    by (simp add: stale_files_def)
  from run_twice_same_outputs [of formula_tech_files True any_file Map.empty stale_files] h
  have "(case run (new_parser formula_tech_files True any_file stale_files) of
          Inl _ \<Rightarrow> False | Inr _ \<Rightarrow> True)
      \<and> list_all (\<lambda>name.
           out_files (state_of (run (new_parser formula_tech_files True any_file Map.empty))) name
             \<noteq> None
           \<and> out_files (state_of (run (new_parser formula_tech_files True any_file stale_files))) name
             = out_files (state_of (run (new_parser formula_tech_files True any_file Map.empty))) name)
         output_names"
    by blast
  with h o show ?thesis by (simp add: output_names_def)
qed

end
